theory Spec2Isabelle
  imports Complex_Main
begin

section \<open>JavaScript primitives used by the processors\<close>

text \<open>
  JavaScript numbers are IEEE doubles; they are idealised here as \<^typ>\<open>real\<close> (no rounding
  error, no NaN, no infinities). Array lengths and counters are \<^typ>\<open>nat\<close>.
  \<^verbatim>\<open>Array.prototype.shift\<close> removes the first element and does nothing on an empty array,
  which is what \<^const>\<open>tl\<close> does on lists. \<^verbatim>\<open>Math.round\<close> rounds half up.
\<close>

definition shift :: "'a list \<Rightarrow> 'a list" where
  "shift xs = tl xs"

definition js_round :: "real \<Rightarrow> int" where
  "js_round x = \<lfloor>x + 1 / 2\<rfloor>"

section \<open>FingerDetector (src/unnamed/part_000)\<close>

text \<open>
  The detector object. Only the three fields that \<^verbatim>\<open>detectFinger\<close> and \<^verbatim>\<open>reset\<close> write
  are state; the area bounds and skin-colour ranges are constants of the image analysis.
\<close>

record detector =
  fingerDetected :: bool
  consecutiveDetections :: nat
  requiredDetections :: nat

definition new_detector :: detector where
  "new_detector = \<lparr>fingerDetected = False, consecutiveDetections = 0, requiredDetections = 5\<rparr>"

text \<open>
  Lines 24--33 of \<^verbatim>\<open>detectFinger\<close> (colour conversion, skin mask, flood fill, shape test)
  analyse one frame and read no detector state. Their outcome on a frame is one of: a
  finger-shaped contour (the per-frame classification is positive), \<^verbatim>\<open>null\<close> (negative),
  or an exception, which the \<^verbatim>\<open>catch\<close> of lines 51--54 turns into a fixed answer without
  touching the counters.
\<close>

type_synonym contour = "(int \<times> int) list"

datatype analysis = FingerContour contour | NoFingerContour | AnalysisThrows

record detection =
  det_fingerDetected :: bool
  det_confidence :: real
  det_contour :: "contour option"

definition detectFinger :: "detector \<Rightarrow> analysis \<Rightarrow> detection \<times> detector" where
  "detectFinger d a =
     (case a of
        AnalysisThrows \<Rightarrow>
          (\<lparr>det_fingerDetected = False, det_confidence = 0, det_contour = None\<rparr>, d)
      | FingerContour c \<Rightarrow>
          (let d1 = d\<lparr>consecutiveDetections := consecutiveDetections d + 1\<rparr>;
               d2 = (if consecutiveDetections d1 \<ge> requiredDetections d1
                     then d1\<lparr>fingerDetected := True\<rparr> else d1)
           in (\<lparr>det_fingerDetected = fingerDetected d2,
                det_confidence = real (consecutiveDetections d2) / real (requiredDetections d2),
                det_contour = Some c\<rparr>, d2))
      | NoFingerContour \<Rightarrow>
          (let d2 = d\<lparr>consecutiveDetections := 0, fingerDetected := False\<rparr>
           in (\<lparr>det_fingerDetected = fingerDetected d2,
                det_confidence = real (consecutiveDetections d2) / real (requiredDetections d2),
                det_contour = None\<rparr>, d2)))"

definition detector_reset :: "detector \<Rightarrow> detector" where
  "detector_reset d = d\<lparr>fingerDetected := False, consecutiveDetections := 0\<rparr>"

text \<open>Feeding a sequence of frames to one detector; the answers are collected in order.\<close>

fun detect_all :: "detector \<Rightarrow> analysis list \<Rightarrow> detection list \<times> detector" where
  "detect_all d [] = ([], d)"
| "detect_all d (a # as) =
     (let (r, d1) = detectFinger d a; (rs, d2) = detect_all d1 as in (r # rs, d2))"

text \<open>A per-frame classification as the specification speaks of it: positive or negative.\<close>

definition classify :: "bool \<Rightarrow> analysis" where
  "classify positive = (if positive then FingerContour [] else NoFingerContour)"

section \<open>RealPPGProcessor (src/App.js)\<close>

subsection \<open>Data\<close>

text \<open>One element of \<^verbatim>\<open>signalBuffer\<close>, as \<^verbatim>\<open>extractPPGSignal\<close> builds it.\<close>

record ppg_sample =
  timestamp :: real
  ppg_value :: real
  r :: real
  g :: real
  b :: real

record bp =
  systolic :: int
  diastolic :: int

datatype quality = Collecting | Poor | Fair | Good | Excellent | Error | InsufficientData

datatype message = PlaceFinger | CollectingData nat nat | ProcessingError

text \<open>The fields the constructor sets, with its values.\<close>

record processor =
  fingerDetector :: detector
  signalBuffer :: "ppg_sample list"
  maxBufferSize :: nat
  samplingRate :: real
  minValidSamples :: nat
  minHeartRate :: real
  maxHeartRate :: real
  heartRateHistory :: "int list"
  maxHistorySize :: nat
  bpHistory :: "bp list"
  maxBPHistorySize :: nat
  snrThreshold :: real
  stabilityThreshold :: real
  amplitudeThreshold :: real
  temperature :: real
  childAge :: real
  isProcessing :: bool
  lastProcessTime :: int
  processingInterval :: int

definition new_processor :: processor where
  "new_processor =
     \<lparr>fingerDetector = new_detector, signalBuffer = [], maxBufferSize = 300,
      samplingRate = 30, minValidSamples = 90, minHeartRate = 60, maxHeartRate = 200,
      heartRateHistory = [], maxHistorySize = 10, bpHistory = [], maxBPHistorySize = 5,
      snrThreshold = 3, stabilityThreshold = 8 / 10, amplitudeThreshold = 1 / 10,
      temperature = 37, childAge = 5, isProcessing = False, lastProcessTime = 0,
      processingInterval = 33\<rparr>"

subsection \<open>Buffer and histories\<close>

text \<open>
  \<^verbatim>\<open>addToBuffer(ppgSignal)\<close>: push, then one \<^verbatim>\<open>shift\<close> if the length exceeds
  \<^verbatim>\<open>maxBufferSize\<close>.
\<close>

definition addToBuffer :: "processor \<Rightarrow> ppg_sample \<Rightarrow> processor" where
  "addToBuffer s ppgSignal =
     (let s1 = s\<lparr>signalBuffer := signalBuffer s @ [ppgSignal]\<rparr>
      in if length (signalBuffer s1) > maxBufferSize s1
         then s1\<lparr>signalBuffer := shift (signalBuffer s1)\<rparr> else s1)"

definition updateHeartRateHistory :: "processor \<Rightarrow> int \<Rightarrow> processor" where
  "updateHeartRateHistory s hr =
     (let s1 = s\<lparr>heartRateHistory := heartRateHistory s @ [hr]\<rparr>
      in if length (heartRateHistory s1) > maxHistorySize s1
         then s1\<lparr>heartRateHistory := shift (heartRateHistory s1)\<rparr> else s1)"

definition updateBPHistory :: "processor \<Rightarrow> bp \<Rightarrow> processor" where
  "updateBPHistory s bloodPressure =
     (let s1 = s\<lparr>bpHistory := bpHistory s @ [bloodPressure]\<rparr>
      in if length (bpHistory s1) > maxBPHistorySize s1
         then s1\<lparr>bpHistory := shift (bpHistory s1)\<rparr> else s1)"

definition setTemperature :: "processor \<Rightarrow> real \<Rightarrow> processor" where
  "setTemperature s temp = s\<lparr>temperature := max 35 (min 42 temp)\<rparr>"

definition setChildAge :: "processor \<Rightarrow> real \<Rightarrow> processor" where
  "setChildAge s age = s\<lparr>childAge := max 0 (min 7 age)\<rparr>"

definition reset :: "processor \<Rightarrow> processor" where
  "reset s = s\<lparr>signalBuffer := [], heartRateHistory := [], bpHistory := [],
               fingerDetector := detector_reset (fingerDetector s), isProcessing := False\<rparr>"

subsection \<open>Signal conditioning\<close>

text \<open>
  The conditioning functions work on plain number arrays. Inside the pipeline they are called
  by \<^verbatim>\<open>calculateVitalSigns\<close> on at least \<^verbatim>\<open>minValidSamples\<close> values, with a timestamp
  array of the same length; the model follows the source on such arrays (on arrays shorter than
  the filter order the source pads with \<^verbatim>\<open>undefined\<close>, which has no counterpart here).
  Each function's \<^verbatim>\<open>try\<close> block consists of arithmetic on numbers and array reads
  only, so its \<^verbatim>\<open>catch\<close> has nothing to handle and is not a branch of the model.
\<close>

definition bandpassFilter :: "real list \<Rightarrow> real \<Rightarrow> real \<Rightarrow> real \<Rightarrow> real list" where
  "bandpassFilter signal lowFreq highFreq sampleRate =
     (let order = 4
      in map (\<lambda>i. if i < order then signal ! i
                  else 1 / 10 * signal ! i + 2 / 10 * signal ! (i - 1) + 4 / 10 * signal ! (i - 2)
                       + 2 / 10 * signal ! (i - 3) + 1 / 10 * signal ! (i - 4))
             [0..<length signal])"

definition savitzkyGolayFilter :: "real list \<Rightarrow> nat \<Rightarrow> nat \<Rightarrow> real list" where
  "savitzkyGolayFilter signal windowSize order =
     (let halfWindow = windowSize div 2; n = length signal
      in map (\<lambda>i. if i < halfWindow \<or> n - 1 - i < halfWindow then signal ! i
                  else sum_list (map (\<lambda>j. signal ! j) [i - halfWindow..<i + halfWindow + 1])
                       / real windowSize)
             [0..<n])"

definition normalizeSignal :: "real list \<Rightarrow> real list" where
  "normalizeSignal signal =
     (if signal = [] then []
      else let mn = Min (set signal); mx = Max (set signal); range = mx - mn
           in if range = 0 then map (\<lambda>_. 1 / 2) signal
              else map (\<lambda>val. (val - mn) / range) signal)"

definition applySignalProcessing :: "processor \<Rightarrow> real list \<Rightarrow> real list" where
  "applySignalProcessing s signal =
     (let mean = sum_list signal / real (length signal);
          processed = map (\<lambda>val. val - mean) signal;
          processed = bandpassFilter processed (8 / 10) 3 (samplingRate s);
          processed = savitzkyGolayFilter processed 5 2;
          processed = normalizeSignal processed
      in processed)"

subsection \<open>Heart rate\<close>

record peak =
  pk_index :: nat
  pk_timestamp :: real
  pk_value :: real

text \<open>One iteration of the loop of \<^verbatim>\<open>findPeaks\<close>, at index \<open>i\<close>.\<close>

definition findPeaks_step :: "real list \<Rightarrow> real list \<Rightarrow> peak list \<Rightarrow> nat \<Rightarrow> peak list" where
  "findPeaks_step signal timestamps peaks i =
     (let minPeakHeight = 6 / 10; minPeakDistance = 3 / 10;
          current = signal ! i; prev = signal ! (i - 1); next = signal ! (i + 1)
      in if current > prev \<and> current > next \<and> current > minPeakHeight
         then (if peaks = [] \<or> timestamps ! i - pk_timestamp (last peaks) \<ge> minPeakDistance
               then peaks @ [\<lparr>pk_index = i, pk_timestamp = timestamps ! i, pk_value = current\<rparr>]
               else peaks)
         else peaks)"

definition findPeaks :: "real list \<Rightarrow> real list \<Rightarrow> peak list" where
  "findPeaks signal timestamps =
     foldl (findPeaks_step signal timestamps) [] [1..<length signal - 1]"

definition applyAgeConstraints :: "processor \<Rightarrow> real \<Rightarrow> real" where
  "applyAgeConstraints s heartRate =
     (let (minHR, maxHR) =
            (if childAge s \<le> 1 then (100, 160)
             else if childAge s \<le> 3 then (80, 140)
             else if childAge s \<le> 5 then (70, 120)
             else if childAge s \<le> 7 then (65, 110)
             else (60, 100))
      in max minHR (min maxHR heartRate))"

definition calculateHeartRate :: "processor \<Rightarrow> real list \<Rightarrow> real list \<Rightarrow> int option" where
  "calculateHeartRate s signal timestamps =
     (let peaks = findPeaks signal timestamps
      in if length peaks < 2 then None
         else let intervals = map (\<lambda>i. pk_timestamp (peaks ! i) - pk_timestamp (peaks ! (i - 1)))
                                  [1..<length peaks];
                  avgInterval = sum_list intervals / real (length intervals);
                  heartRate = 60 / avgInterval;
                  ageAdjustedHR = applyAgeConstraints s heartRate
              in Some (js_round ageAdjustedHR))"

text \<open>
  Where the source tests a heart rate for truthiness (\<^verbatim>\<open>if (heartRate)\<close>,
  \<^verbatim>\<open>!heartRate\<close>), the model distinguishes \<^verbatim>\<open>null\<close> (\<open>None\<close>), the number 0 and
  the other numbers.
\<close>

subsection \<open>Blood pressure\<close>

record pulse_features =
  amplitude :: real
  pf_mean :: real
  variance :: real
  peakToPeak :: real
  skewness :: real
  kurtosis :: real

definition calculateSkewness :: "real list \<Rightarrow> real \<Rightarrow> real \<Rightarrow> real" where
  "calculateSkewness signal mean stdDev =
     (if stdDev = 0 then 0
      else let n = real (length signal);
               sum = sum_list (map (\<lambda>val. ((val - mean) / stdDev) ^ 3) signal)
           in (n / ((n - 1) * (n - 2))) * sum)"

definition calculateKurtosis :: "real list \<Rightarrow> real \<Rightarrow> real \<Rightarrow> real" where
  "calculateKurtosis signal mean stdDev =
     (if stdDev = 0 then 0
      else let n = real (length signal);
               sum = sum_list (map (\<lambda>val. ((val - mean) / stdDev) ^ 4) signal)
           in (n * (n + 1) / ((n - 1) * (n - 2) * (n - 3))) * sum
              - (3 * (n - 1) ^ 2 / ((n - 2) * (n - 3))))"

definition extractPulseWaveFeatures :: "real list \<Rightarrow> pulse_features" where
  "extractPulseWaveFeatures signal =
     (let mean = sum_list signal / real (length signal);
          var = sum_list (map (\<lambda>val. (val - mean) ^ 2) signal) / real (length signal);
          stdDev = sqrt var
      in \<lparr>amplitude = stdDev, pf_mean = mean, variance = var,
          peakToPeak = Max (set signal) - Min (set signal),
          skewness = calculateSkewness signal mean stdDev,
          kurtosis = calculateKurtosis signal mean stdDev\<rparr>)"

definition getAgeAdjustment :: "processor \<Rightarrow> real" where
  "getAgeAdjustment s =
     (if childAge s \<le> 1 then - 20
      else if childAge s \<le> 3 then - 15
      else if childAge s \<le> 5 then - 10
      else if childAge s \<le> 7 then - 5
      else 0)"

definition calculateSystolicBP :: "processor \<Rightarrow> pulse_features \<Rightarrow> real \<Rightarrow> real" where
  "calculateSystolicBP s pulseFeatures heartRate =
     (let baseSystolic = 100;
          baseSystolic = (if heartRate > 100 then baseSystolic + (heartRate - 100) * (3 / 10)
                          else if heartRate < 70 then baseSystolic - (70 - heartRate) * (2 / 10)
                          else baseSystolic);
          baseSystolic = (if amplitude pulseFeatures > 3 / 10 then baseSystolic + 10
                          else if amplitude pulseFeatures < 1 / 10 then baseSystolic - 5
                          else baseSystolic);
          ageAdjustment = getAgeAdjustment s;
          baseSystolic = baseSystolic + ageAdjustment
      in max 70 (min 140 baseSystolic))"

text \<open>
  \<^verbatim>\<open>calculateDiastolicBP\<close> draws \<^verbatim>\<open>Math.random()\<close>; the drawn number is the argument
  \<open>random\<close>, a value in \<open>[0, 1)\<close>.
\<close>

definition calculateDiastolicBP :: "pulse_features \<Rightarrow> real \<Rightarrow> real \<Rightarrow> real" where
  "calculateDiastolicBP pulseFeatures systolicBP random =
     (let ratio = 65 / 100 + (random - 1 / 2) * (1 / 10)
      in real_of_int (js_round (systolicBP * ratio)))"

definition applyTemperatureCompensation :: "processor \<Rightarrow> real \<Rightarrow> real" where
  "applyTemperatureCompensation s bpValue =
     (let tempDiff = temperature s - 37; compensation = tempDiff * 2
      in bpValue + compensation)"

definition calculateBloodPressure :: "processor \<Rightarrow> real list \<Rightarrow> int option \<Rightarrow> real \<Rightarrow> bp option" where
  "calculateBloodPressure s signal heartRate random =
     (case heartRate of
        None \<Rightarrow> None
      | Some hr \<Rightarrow>
          if hr = 0 then None
          else let pulseFeatures = extractPulseWaveFeatures signal;
               systolicBP = calculateSystolicBP s pulseFeatures (real_of_int hr);
               diastolicBP = calculateDiastolicBP pulseFeatures systolicBP random;
               tempCompensatedSystolic = applyTemperatureCompensation s systolicBP;
               tempCompensatedDiastolic = applyTemperatureCompensation s diastolicBP
           in Some \<lparr>systolic = js_round tempCompensatedSystolic,
                    diastolic = js_round tempCompensatedDiastolic\<rparr>)"

subsection \<open>Confidence and quality\<close>

definition estimateNoisePower :: "real list \<Rightarrow> real" where
  "estimateNoisePower signal =
     (let diffs = map (\<lambda>i. \<bar>signal ! i - signal ! (i - 1)\<bar>) [1..<length signal];
          noiseSum = sum_list (map (\<lambda>diff. diff * diff) diffs);
          count = length diffs
      in if count > 0 then noiseSum / real count else 1 / 100)"

definition calculateSNR :: "real list \<Rightarrow> real" where
  "calculateSNR signal =
     (let mean = sum_list signal / real (length signal);
          signalPower = sum_list (map (\<lambda>val. (val - mean) ^ 2) signal) / real (length signal);
          noisePower = estimateNoisePower signal
      in if noisePower = 0 then 10 else 10 * log 10 (signalPower / noisePower))"

definition calculateStability :: "real list \<Rightarrow> real" where
  "calculateStability signal =
     (let mean = sum_list signal / real (length signal);
          var = sum_list (map (\<lambda>val. (val - mean) ^ 2) signal) / real (length signal);
          stdDev = sqrt var
      in if mean > 0 then max 0 (1 - stdDev / mean) else 0)"

definition calculateAmplitude :: "real list \<Rightarrow> real" where
  "calculateAmplitude signal = Max (set signal) - Min (set signal)"

definition calculateConfidence :: "processor \<Rightarrow> real list \<Rightarrow> int option \<Rightarrow> real" where
  "calculateConfidence s signal heartRate =
     (let snr = calculateSNR signal;
          stability = calculateStability signal;
          amp = calculateAmplitude signal;
          confidence = 0;
          confidence = (if snr > snrThreshold s then confidence + 3 / 10
                        else confidence + (snr / snrThreshold s) * (3 / 10));
          confidence = (if stability > stabilityThreshold s then confidence + 3 / 10
                        else confidence + (stability / stabilityThreshold s) * (3 / 10));
          confidence = (if amp > amplitudeThreshold s then confidence + 2 / 10
                        else confidence + (amp / amplitudeThreshold s) * (2 / 10));
          confidence = (case heartRate of
                          None \<Rightarrow> confidence
                        | Some hr \<Rightarrow>
                            if hr \<noteq> 0 \<and> real_of_int hr \<ge> minHeartRate s
                               \<and> real_of_int hr \<le> maxHeartRate s
                            then confidence + 2 / 10 else confidence)
      in min 1 (max 0 confidence))"

definition assessSignalQuality :: "real list \<Rightarrow> real \<Rightarrow> quality" where
  "assessSignalQuality signal confidence =
     (if confidence \<ge> 8 / 10 then Excellent
      else if confidence \<ge> 6 / 10 then Good
      else if confidence \<ge> 4 / 10 then Fair
      else Poor)"

subsection \<open>Vital signs\<close>

record vital_signs =
  vs_heartRate :: "int option"
  vs_bloodPressure :: "bp option"
  vs_confidence :: real
  vs_quality :: quality

text \<open>
  \<^verbatim>\<open>calculateVitalSigns\<close>. The two history updates are the last statements of its
  \<^verbatim>\<open>try\<close> block. Everything before them is the arithmetic above on the numbers held in the
  buffer, which is total, so the \<^verbatim>\<open>catch\<close> of lines 1632--1640 is never entered from a
  buffer of samples and is not a branch of the model.
\<close>

definition calculateVitalSigns :: "processor \<Rightarrow> real \<Rightarrow> vital_signs \<times> processor" where
  "calculateVitalSigns s random =
     (if length (signalBuffer s) < minValidSamples s
      then (\<lparr>vs_heartRate = None, vs_bloodPressure = None, vs_confidence = 0,
              vs_quality = InsufficientData\<rparr>, s)
      else let vals = map ppg_value (signalBuffer s);
               timestamps = map timestamp (signalBuffer s);
               filteredSignal = applySignalProcessing s vals;
               heartRate = calculateHeartRate s filteredSignal timestamps;
               bloodPressure = calculateBloodPressure s filteredSignal heartRate random;
               confidence = calculateConfidence s filteredSignal heartRate;
               q = assessSignalQuality filteredSignal confidence;
               s1 = (case heartRate of
                       None \<Rightarrow> s
                     | Some hr \<Rightarrow> if hr = 0 then s else updateHeartRateHistory s hr);
               s2 = (case bloodPressure of
                       None \<Rightarrow> s1
                     | Some p \<Rightarrow> updateBPHistory s1 p)
           in (\<lparr>vs_heartRate = heartRate, vs_bloodPressure = bloodPressure,
                vs_confidence = confidence, vs_quality = q\<rparr>, s2))"

record display_point =
  dp_x :: nat
  dp_y :: real
  dp_timestamp :: real

definition getDisplaySignal :: "processor \<Rightarrow> display_point list" where
  "getDisplaySignal s =
     (if signalBuffer s = [] then []
      else let recentSignals = drop (length (signalBuffer s) - 60) (signalBuffer s)
           in map (\<lambda>i. \<lparr>dp_x = i, dp_y = ppg_value (recentSignals ! i),
                         dp_timestamp = timestamp (recentSignals ! i)\<rparr>)
                  [0..<length recentSignals])"

subsection \<open>The per-frame entry point\<close>

text \<open>
  What one call of \<^verbatim>\<open>processFrame(frame)\<close> reads from outside the processor:
  \<^item> \<open>now\<close>: \<^verbatim>\<open>Date.now()\<close>, in milliseconds;
  \<^item> \<open>imageData\<close>: what \<^verbatim>\<open>extractImageData(frame)\<close> resolves to, the pixel array, or
    \<^verbatim>\<open>null\<close> when its \<^verbatim>\<open>try\<close> block throws (a \<^verbatim>\<open>null\<close> frame, a frame whose
    dimensions are no array length);
  \<^item> \<open>frame_analysis\<close>: the outcome of the detector's image analysis on that array;
  \<^item> \<open>pixelSample\<close>: what lines 1536--1570 of \<^verbatim>\<open>extractPPGSignal\<close> produce for a non-empty
    contour: the averaged sample with its clock reading and noise term, or \<^verbatim>\<open>null\<close> (no
    valid pixel, or an exception caught by its own handler);
  \<^item> \<open>random\<close>: the \<^verbatim>\<open>Math.random()\<close> drawn by \<^verbatim>\<open>calculateDiastolicBP\<close>.
\<close>

record frame_env =
  now :: int
  imageData :: "nat list option"
  frame_analysis :: analysis
  pixelSample :: "ppg_sample option"
  random :: real

definition extractPPGSignal :: "contour option \<Rightarrow> ppg_sample option \<Rightarrow> ppg_sample option" where
  "extractPPGSignal fingerContour sample =
     (case fingerContour of
        None \<Rightarrow> None
      | Some c \<Rightarrow> if length c = 0 then None else sample)"

text \<open>
  The object \<^verbatim>\<open>processFrame\<close> resolves to; a property the object literal does not set is
  \<open>None\<close>, as is a \<^verbatim>\<open>null\<close> heart rate or blood pressure.
\<close>

record result =
  res_fingerDetected :: bool
  res_message :: "message option"
  res_heartRate :: "int option"
  res_bloodPressure :: "bp option"
  res_confidence :: real
  res_quality :: quality
  res_signalData :: "display_point list option"
  res_temperature :: "real option"
  res_childAge :: "real option"

text \<open>
  \<^verbatim>\<open>processFrame\<close>; \<open>None\<close> is \<^verbatim>\<open>null\<close>. Every stage called inside its \<^verbatim>\<open>try\<close>
  block handles its own exceptions (\<^verbatim>\<open>extractImageData\<close>, \<^verbatim>\<open>detectFinger\<close>,
  \<^verbatim>\<open>extractPPGSignal\<close>, \<^verbatim>\<open>calculateVitalSigns\<close>, \<^verbatim>\<open>getDisplaySignal\<close>) or cannot throw
  (\<^verbatim>\<open>addToBuffer\<close>), so no exception of a stage reaches the handler of lines 1491--1499,
  which would answer \<^verbatim>\<open>{fingerDetected: false, message, confidence: 0, quality: 'error'}\<close>.
\<close>

definition processFrame :: "processor \<Rightarrow> frame_env \<Rightarrow> result option \<times> processor" where
  "processFrame s env =
     (let currentTime = now env
      in if currentTime - lastProcessTime s < processingInterval s then (None, s)
         else
           let s1 = s\<lparr>lastProcessTime := currentTime\<rparr>
           in case imageData env of
                None \<Rightarrow> (None, s1)
              | Some img \<Rightarrow>
                  let (fingerDetection, d) = detectFinger (fingerDetector s1) (frame_analysis env);
                      s2 = s1\<lparr>fingerDetector := d\<rparr>
                  in if \<not> det_fingerDetected fingerDetection
                     then (Some \<lparr>res_fingerDetected = False, res_message = Some PlaceFinger,
                                  res_heartRate = None, res_bloodPressure = None,
                                  res_confidence = 0, res_quality = Poor,
                                  res_signalData = None, res_temperature = None,
                                  res_childAge = None\<rparr>, s2)
                     else
                       case extractPPGSignal (det_contour fingerDetection) (pixelSample env) of
                         None \<Rightarrow> (None, s2)
                       | Some ppgSignal \<Rightarrow>
                           let s3 = addToBuffer s2 ppgSignal
                           in if length (signalBuffer s3) \<ge> minValidSamples s3
                              then
                                let (vitalSigns, s4) = calculateVitalSigns s3 (random env)
                                in (Some \<lparr>res_fingerDetected = True, res_message = None,
                                           res_heartRate = vs_heartRate vitalSigns,
                                           res_bloodPressure = vs_bloodPressure vitalSigns,
                                           res_confidence = vs_confidence vitalSigns,
                                           res_quality = vs_quality vitalSigns,
                                           res_signalData = Some (getDisplaySignal s4),
                                           res_temperature = Some (temperature s4),
                                           res_childAge = Some (childAge s4)\<rparr>, s4)
                              else
                                (Some \<lparr>res_fingerDetected = True,
                                        res_message = Some (CollectingData (length (signalBuffer s3))
                                                                           (minValidSamples s3)),
                                        res_heartRate = None, res_bloodPressure = None,
                                        res_confidence = real (length (signalBuffer s3))
                                                         / real (minValidSamples s3),
                                        res_quality = Collecting,
                                        res_signalData = None, res_temperature = None,
                                        res_childAge = None\<rparr>, s3))"

text \<open>A session: frames handed to \<^verbatim>\<open>processFrame\<close> one after the other.\<close>

fun run_frames :: "processor \<Rightarrow> frame_env list \<Rightarrow> result option list \<times> processor" where
  "run_frames s [] = ([], s)"
| "run_frames s (e # es) =
     (let (res, s1) = processFrame s e; (rs, s2) = run_frames s1 es in (res # rs, s2))"

section \<open>The simulated processors\<close>

text \<open>
  \<^verbatim>\<open>AdvancedPPGProcessor\<close> (src/PPGAlgorithm.js) and \<^verbatim>\<open>EnhancedPPGProcessor\<close>
  (src/App.js) keep four parallel arrays and a heart-rate history. Their fields are named
  alike; the model prefixes them with \<open>adv_\<close> and \<open>enh_\<close>.
\<close>

record rgb =
  red :: real
  green :: real
  blue :: real

subsection \<open>AdvancedPPGProcessor\<close>

record adv_processor =
  adv_bufferSize :: nat
  adv_minHeartRate :: real
  adv_maxHeartRate :: real
  adv_redBuffer :: "real list"
  adv_greenBuffer :: "real list"
  adv_blueBuffer :: "real list"
  adv_timestamps :: "real list"
  adv_processedSignal :: "real list"
  adv_peaks :: "nat list"
  adv_heartRateHistory :: "real list"

definition new_adv_processor :: adv_processor where
  "new_adv_processor =
     \<lparr>adv_bufferSize = 300, adv_minHeartRate = 60, adv_maxHeartRate = 150,
      adv_redBuffer = [], adv_greenBuffer = [], adv_blueBuffer = [], adv_timestamps = [],
      adv_processedSignal = [], adv_peaks = [], adv_heartRateHistory = []\<rparr>"

text \<open>The \<^verbatim>\<open>while\<close> loop of \<^verbatim>\<open>addToBuffer\<close>: its test reads the red buffer only.\<close>

function adv_trim :: "adv_processor \<Rightarrow> adv_processor" where
  "adv_trim s =
     (if length (adv_redBuffer s) > adv_bufferSize s
      then adv_trim (s\<lparr>adv_redBuffer := shift (adv_redBuffer s),
                       adv_greenBuffer := shift (adv_greenBuffer s),
                       adv_blueBuffer := shift (adv_blueBuffer s),
                       adv_timestamps := shift (adv_timestamps s)\<rparr>)
      else s)"
  by pat_completeness auto
termination
  by (relation "measure (\<lambda>s. length (adv_redBuffer s))") (auto simp: shift_def)

declare adv_trim.simps [simp del]

definition adv_addToBuffer :: "adv_processor \<Rightarrow> rgb \<Rightarrow> real \<Rightarrow> adv_processor" where
  "adv_addToBuffer s rgbValues ts =
     adv_trim (s\<lparr>adv_redBuffer := adv_redBuffer s @ [red rgbValues],
                 adv_greenBuffer := adv_greenBuffer s @ [green rgbValues],
                 adv_blueBuffer := adv_blueBuffer s @ [blue rgbValues],
                 adv_timestamps := adv_timestamps s @ [ts]\<rparr>)"

text \<open>\<^verbatim>\<open>getSmoothedHeartRate\<close>: the median of the history.\<close>

definition adv_getSmoothedHeartRate :: "adv_processor \<Rightarrow> real option" where
  "adv_getSmoothedHeartRate s =
     (if length (adv_heartRateHistory s) = 0 then None
      else let sorted = sort (adv_heartRateHistory s);
               middle = length sorted div 2
           in Some (if length sorted mod 2 = 0
                    then real_of_int (js_round ((sorted ! (middle - 1) + sorted ! middle) / 2))
                    else sorted ! middle))"

text \<open>
  \<^verbatim>\<open>calculateHeartRate\<close>, from line 118 on. Lines 96--116 compute \<^verbatim>\<open>finalHR\<close> from a copy of
  the green buffer (filtering, peak picking, a discrete Fourier transform) and write no field;
  the number they arrive at, or \<^verbatim>\<open>null\<close>, is the argument \<open>finalHR\<close>.
\<close>

definition adv_calculateHeartRate :: "adv_processor \<Rightarrow> real option \<Rightarrow> real option \<times> adv_processor" where
  "adv_calculateHeartRate s finalHR =
     (case finalHR of
        None \<Rightarrow> (None, s)
      | Some hr \<Rightarrow>
          if hr = 0 then (None, s)
          else let s1 = s\<lparr>adv_heartRateHistory := adv_heartRateHistory s @ [hr]\<rparr>;
                   s2 = (if length (adv_heartRateHistory s1) > 10
                         then s1\<lparr>adv_heartRateHistory := shift (adv_heartRateHistory s1)\<rparr>
                         else s1)
               in (adv_getSmoothedHeartRate s2, s2))"

text \<open>
  \<^verbatim>\<open>processFrame\<close>: the sample is what \<^verbatim>\<open>extractRGBValues\<close> simulated (clock and
  \<^verbatim>\<open>Math.random\<close>). The result is \<^verbatim>\<open>null\<close> below 60 samples; otherwise it carries the
  smoothed heart rate. Its other properties (\<^verbatim>\<open>confidence\<close>, \<^verbatim>\<open>signal\<close>, \<^verbatim>\<open>isValid\<close>) are
  computed from the fields without writing any and are left out.
\<close>

definition adv_processFrame ::
  "adv_processor \<Rightarrow> rgb \<Rightarrow> real \<Rightarrow> real option \<Rightarrow> real option option \<times> adv_processor" where
  "adv_processFrame s rgbValues ts finalHR =
     (let s1 = adv_addToBuffer s rgbValues ts
      in if length (adv_redBuffer s1) \<ge> 60
         then let (heartRate, s2) = adv_calculateHeartRate s1 finalHR in (Some heartRate, s2)
         else (None, s1))"

definition adv_reset :: "adv_processor \<Rightarrow> adv_processor" where
  "adv_reset s = s\<lparr>adv_redBuffer := [], adv_greenBuffer := [], adv_blueBuffer := [],
                   adv_timestamps := [], adv_processedSignal := [], adv_peaks := [],
                   adv_heartRateHistory := []\<rparr>"

subsection \<open>EnhancedPPGProcessor\<close>

record enh_processor =
  enh_bufferSize :: nat
  enh_redBuffer :: "real list"
  enh_greenBuffer :: "real list"
  enh_blueBuffer :: "real list"
  enh_timestamps :: "real list"
  enh_heartRateHistory :: "int list"
  enh_confidenceHistory :: "real list"
  enh_isProcessing :: bool
  enh_measurementStartTime :: "real option"

definition new_enh_processor :: enh_processor where
  "new_enh_processor =
     \<lparr>enh_bufferSize = 300, enh_redBuffer = [], enh_greenBuffer = [], enh_blueBuffer = [],
      enh_timestamps = [], enh_heartRateHistory = [], enh_confidenceHistory = [],
      enh_isProcessing = False, enh_measurementStartTime = None\<rparr>"

function enh_trim :: "enh_processor \<Rightarrow> enh_processor" where
  "enh_trim s =
     (if length (enh_redBuffer s) > enh_bufferSize s
      then enh_trim (s\<lparr>enh_redBuffer := shift (enh_redBuffer s),
                       enh_greenBuffer := shift (enh_greenBuffer s),
                       enh_blueBuffer := shift (enh_blueBuffer s),
                       enh_timestamps := shift (enh_timestamps s)\<rparr>)
      else s)"
  by pat_completeness auto
termination
  by (relation "measure (\<lambda>s. length (enh_redBuffer s))") (auto simp: shift_def)

declare enh_trim.simps [simp del]

definition enh_addToBuffer :: "enh_processor \<Rightarrow> rgb \<Rightarrow> real \<Rightarrow> enh_processor" where
  "enh_addToBuffer s d ts =
     enh_trim (s\<lparr>enh_redBuffer := enh_redBuffer s @ [red d],
                 enh_greenBuffer := enh_greenBuffer s @ [green d],
                 enh_blueBuffer := enh_blueBuffer s @ [blue d],
                 enh_timestamps := enh_timestamps s @ [ts]\<rparr>)"

text \<open>\<^verbatim>\<open>getSmoothedHeartRate\<close>: the rounded mean of the last three history entries.\<close>

definition enh_getSmoothedHeartRate :: "enh_processor \<Rightarrow> int option" where
  "enh_getSmoothedHeartRate s =
     (if length (enh_heartRateHistory s) = 0 then None
      else let recent = drop (length (enh_heartRateHistory s) - 3) (enh_heartRateHistory s)
           in Some (js_round (real_of_int (sum_list recent) / real (length recent))))"

text \<open>
  \<^verbatim>\<open>calculateMetrics\<close>: \<open>heartRate\<close> and \<open>confidence\<close> are what \<^verbatim>\<open>estimateHeartRate\<close> and
  \<^verbatim>\<open>calculateConfidence\<close> computed from the green buffer and the history without writing a
  field. The returned object is reduced to its heart rate, as above.
\<close>

definition enh_calculateMetrics ::
  "enh_processor \<Rightarrow> int option \<Rightarrow> real \<Rightarrow> int option \<times> enh_processor" where
  "enh_calculateMetrics s heartRate confidence =
     (let s2 = (case heartRate of
                  None \<Rightarrow> s
                | Some hr \<Rightarrow>
                    if hr = 0 then s
                    else let s1 = s\<lparr>enh_heartRateHistory := enh_heartRateHistory s @ [hr],
                                     enh_confidenceHistory := enh_confidenceHistory s @ [confidence]\<rparr>
                         in if length (enh_heartRateHistory s1) > 20
                            then s1\<lparr>enh_heartRateHistory := shift (enh_heartRateHistory s1),
                                    enh_confidenceHistory := shift (enh_confidenceHistory s1)\<rparr>
                            else s1)
      in (enh_getSmoothedHeartRate s2, s2))"

definition enh_processFrame ::
  "enh_processor \<Rightarrow> rgb \<Rightarrow> real \<Rightarrow> int option \<Rightarrow> real \<Rightarrow> int option option \<times> enh_processor" where
  "enh_processFrame s simulatedData ts heartRate confidence =
     (if enh_isProcessing s then (None, s)
      else let s1 = enh_addToBuffer s simulatedData ts
           in if length (enh_greenBuffer s1) \<ge> 60
              then let (hr, s2) = enh_calculateMetrics s1 heartRate confidence in (Some hr, s2)
              else (None, s1))"

definition enh_reset :: "enh_processor \<Rightarrow> enh_processor" where
  "enh_reset s = s\<lparr>enh_redBuffer := [], enh_greenBuffer := [], enh_blueBuffer := [],
                   enh_timestamps := [], enh_heartRateHistory := [], enh_confidenceHistory := [],
                   enh_measurementStartTime := None\<rparr>"

text \<open>The calls a client can make on a simulated processor, and runs of such calls.\<close>

datatype adv_call =
    AdvProcessFrame rgb real "real option"
  | AdvAddToBuffer rgb real
  | AdvReset

fun adv_step :: "adv_processor \<Rightarrow> adv_call \<Rightarrow> adv_processor" where
  "adv_step s (AdvProcessFrame v ts hr) = snd (adv_processFrame s v ts hr)"
| "adv_step s (AdvAddToBuffer v ts) = adv_addToBuffer s v ts"
| "adv_step s AdvReset = adv_reset s"

datatype enh_call =
    EnhProcessFrame rgb real "int option" real
  | EnhAddToBuffer rgb real
  | EnhReset

fun enh_step :: "enh_processor \<Rightarrow> enh_call \<Rightarrow> enh_processor" where
  "enh_step s (EnhProcessFrame v ts hr c) = snd (enh_processFrame s v ts hr c)"
| "enh_step s (EnhAddToBuffer v ts) = enh_addToBuffer s v ts"
| "enh_step s EnhReset = enh_reset s"

section \<open>Notions used to state the properties\<close>

text \<open>
  The number of positive classifications at the end of a sequence of per-frame classifications
  (the current run of consecutive positives).
\<close>

definition streak :: "bool list \<Rightarrow> nat" where
  "streak cs = length (takeWhile (\<lambda>c. c) (rev cs))"

text \<open>Appending samples one after the other to a simulated processor.\<close>

definition adv_feed :: "adv_processor \<Rightarrow> (rgb \<times> real) list \<Rightarrow> adv_processor" where
  "adv_feed s ys = foldl (\<lambda>s (v, t). adv_addToBuffer s v t) s ys"

text \<open>The four parallel arrays have one length.\<close>

definition adv_synced :: "adv_processor \<Rightarrow> bool" where
  "adv_synced s =
     (length (adv_greenBuffer s) = length (adv_redBuffer s) \<and>
      length (adv_blueBuffer s) = length (adv_redBuffer s) \<and>
      length (adv_timestamps s) = length (adv_redBuffer s))"

definition enh_synced :: "enh_processor \<Rightarrow> bool" where
  "enh_synced s =
     (length (enh_greenBuffer s) = length (enh_redBuffer s) \<and>
      length (enh_blueBuffer s) = length (enh_redBuffer s) \<and>
      length (enh_timestamps s) = length (enh_redBuffer s))"

text \<open>The detector after \<open>n\<close> consecutive positive classifications.\<close>

definition detector_inv :: "detector \<Rightarrow> nat \<Rightarrow> bool" where
  "detector_inv d n =
     (requiredDetections d = 5 \<and> consecutiveDetections d = n \<and> fingerDetected d = (5 \<le> n))"

text \<open>The heart-rate term of \<^verbatim>\<open>calculateSystolicBP\<close>.\<close>

definition hr_adjust :: "real \<Rightarrow> real" where
  "hr_adjust x = (if x > 100 then (x - 100) * (3 / 10)
                  else if x < 70 then - ((70 - x) * (2 / 10)) else 0)"

subsection \<open>Concrete inputs\<close>

text \<open>
  A frame whose image extraction throws; a processor whose detector has seen four consecutive
  positive frames; a frame with a finger, and one on which the detector's analysis throws.
\<close>

definition env_no_image :: frame_env where
  "env_no_image = \<lparr>now = 1000, imageData = None, frame_analysis = NoFingerContour,
                     pixelSample = None, random = 0\<rparr>"

definition s_detecting :: processor where
  "s_detecting = new_processor\<lparr>fingerDetector :=
       \<lparr>fingerDetected = False, consecutiveDetections = 4, requiredDetections = 5\<rparr>\<rparr>"

definition sample0 :: ppg_sample where
  "sample0 = \<lparr>timestamp = 1, ppg_value = 1 / 2, r = 1 / 2, g = 1 / 2, b = 1 / 2\<rparr>"

definition env_finger :: frame_env where
  "env_finger = \<lparr>now = 1000, imageData = Some [], frame_analysis = FingerContour [(0, 0)],
                   pixelSample = Some sample0, random = 1 / 2\<rparr>"

definition env_analysis_throws :: frame_env where
  "env_analysis_throws = \<lparr>now = 1000, imageData = Some [], frame_analysis = AnalysisThrows,
                   pixelSample = None, random = 0\<rparr>"

subsection \<open>A recorded signal\<close>

text \<open>
  A synthetic recording: one sample every 60 ms, the value following a triangular wave with a
  period of ten samples (0.6 s). Sample \<open>k\<close> carries the timestamp \<open>0.06 (k + 5)\<close> s.
  \<open>fed n\<close> is a fresh processor after \<^verbatim>\<open>addToBuffer\<close> has been called with the first \<open>n\<close>
  samples.
\<close>

definition wave :: "nat \<Rightarrow> real" where
  "wave k = [0, 1, 2, 3, 4, 5, 4, 3, 2, 1] ! ((k + 9) mod 10) / 10"

definition sample_at :: "nat \<Rightarrow> ppg_sample" where
  "sample_at k = \<lparr>timestamp = 3 * real (k + 5) / 50, ppg_value = wave k,
                   r = 1 / 2, g = wave k, b = 1 / 2\<rparr>"

definition samples :: "nat \<Rightarrow> ppg_sample list" where
  "samples n = map sample_at [0..<n]"

definition fed :: "nat \<Rightarrow> processor" where
  "fed n = foldl addToBuffer new_processor (samples n)"

text \<open>The estimate \<^verbatim>\<open>calculateVitalSigns\<close> computes from the buffer as it stands.\<close>

definition current_estimate :: "processor \<Rightarrow> int option" where
  "current_estimate s =
     calculateHeartRate s (applySignalProcessing s (map ppg_value (signalBuffer s)))
                        (map timestamp (signalBuffer s))"

section \<open>The signal buffer is a sliding window\<close>

lemma addToBuffer_fields:
  "maxBufferSize (addToBuffer s x) = maxBufferSize s"
  by (simp add: addToBuffer_def Let_def)

lemma foldl_addToBuffer_cap:
  "maxBufferSize (foldl addToBuffer s xs) = maxBufferSize s"
  by (induction xs rule: rev_induct) (simp_all add: addToBuffer_fields)

lemma shift_drop_snoc:
  "k \<le> length xs \<Longrightarrow> shift (drop k xs @ [x]) = drop (Suc k) (xs @ [x])"
proof -
  assume "k \<le> length xs"
  then have "drop k xs @ [x] = drop k (xs @ [x])" by simp
  then show ?thesis by (simp only: shift_def tl_drop drop_Suc)
qed

lemma window_snoc:
  "(if length (drop (length xs - c) xs @ [x]) > c then shift (drop (length xs - c) xs @ [x])
    else drop (length xs - c) xs @ [x]) = drop (Suc (length xs) - c) (xs @ [x])"
proof (cases "length xs < c")
  case True
  then show ?thesis by simp
next
  case False
  then have "Suc (length xs) - c = Suc (length xs - c)" by simp
  moreover have "shift (drop (length xs - c) xs @ [x]) = drop (Suc (length xs - c)) (xs @ [x])"
    by (rule shift_drop_snoc) simp
  ultimately show ?thesis using False by simp
qed

lemma foldl_addToBuffer_window:
  "signalBuffer s = [] \<Longrightarrow>
   signalBuffer (foldl addToBuffer s xs) = drop (length xs - maxBufferSize s) xs"
proof (induction xs rule: rev_induct)
  case Nil
  then show ?case by simp
next
  case (snoc x xs)
  let ?t = "foldl addToBuffer s xs"
  have buf: "signalBuffer ?t = drop (length xs - maxBufferSize s) xs" using snoc by simp
  have cap: "maxBufferSize ?t = maxBufferSize s" by (rule foldl_addToBuffer_cap)
  have "signalBuffer (addToBuffer ?t x) =
        (if length (signalBuffer ?t @ [x]) > maxBufferSize ?t then shift (signalBuffer ?t @ [x])
         else signalBuffer ?t @ [x])"
    by (simp add: addToBuffer_def Let_def)
  also have "\<dots> = drop (Suc (length xs) - maxBufferSize s) (xs @ [x])"
    unfolding buf cap by (rule window_snoc)
  finally show ?case by simp
qed


lemma adv_trim_once:
  assumes "length (adv_redBuffer s) \<le> Suc (adv_bufferSize s)"
  shows "adv_trim s =
         (if length (adv_redBuffer s) > adv_bufferSize s
          then s\<lparr>adv_redBuffer := shift (adv_redBuffer s),
                 adv_greenBuffer := shift (adv_greenBuffer s),
                 adv_blueBuffer := shift (adv_blueBuffer s),
                 adv_timestamps := shift (adv_timestamps s)\<rparr>
          else s)"
proof (cases "length (adv_redBuffer s) > adv_bufferSize s")
  case False
  then show ?thesis by (subst adv_trim.simps) simp
next
  case True
  let ?t = "s\<lparr>adv_redBuffer := shift (adv_redBuffer s),
               adv_greenBuffer := shift (adv_greenBuffer s),
               adv_blueBuffer := shift (adv_blueBuffer s),
               adv_timestamps := shift (adv_timestamps s)\<rparr>"
  have "\<not> length (adv_redBuffer ?t) > adv_bufferSize ?t"
    using assms by (simp add: shift_def)
  then have stop: "adv_trim ?t = ?t" by (subst adv_trim.simps) simp
  have "adv_trim s = adv_trim ?t" using True by (subst adv_trim.simps) simp
  also note stop
  finally show ?thesis using True by (simp only: if_True)
qed

lemma adv_addToBuffer_unfold:
  assumes "length (adv_redBuffer s) \<le> adv_bufferSize s"
  shows "adv_addToBuffer s v t =
         (if length (adv_redBuffer s) = adv_bufferSize s
          then s\<lparr>adv_redBuffer := shift (adv_redBuffer s @ [red v]),
                 adv_greenBuffer := shift (adv_greenBuffer s @ [green v]),
                 adv_blueBuffer := shift (adv_blueBuffer s @ [blue v]),
                 adv_timestamps := shift (adv_timestamps s @ [t])\<rparr>
          else s\<lparr>adv_redBuffer := adv_redBuffer s @ [red v],
                 adv_greenBuffer := adv_greenBuffer s @ [green v],
                 adv_blueBuffer := adv_blueBuffer s @ [blue v],
                 adv_timestamps := adv_timestamps s @ [t]\<rparr>)"
proof -
  let ?p = "s\<lparr>adv_redBuffer := adv_redBuffer s @ [red v],
               adv_greenBuffer := adv_greenBuffer s @ [green v],
               adv_blueBuffer := adv_blueBuffer s @ [blue v],
               adv_timestamps := adv_timestamps s @ [t]\<rparr>"
  have "length (adv_redBuffer ?p) \<le> Suc (adv_bufferSize ?p)" using assms by simp
  from adv_trim_once [OF this] show ?thesis
    unfolding adv_addToBuffer_def using assms by auto
qed

lemma window_step:
  assumes "buf = drop (length xs - c) xs"
  shows "(if length buf = c then shift (buf @ [x]) else buf @ [x])
         = drop (length (xs @ [x]) - c) (xs @ [x])"
proof -
  have "(length buf = c) = (length (drop (length xs - c) xs @ [x]) > c)"
    unfolding assms by auto
  then show ?thesis using window_snoc [of c xs x] unfolding assms by simp
qed


lemma adv_window:
  "adv_bufferSize (adv_feed new_adv_processor ys) = 300 \<and>
   adv_redBuffer (adv_feed new_adv_processor ys) = drop (length ys - 300) (map (\<lambda>p. red (fst p)) ys) \<and>
   adv_greenBuffer (adv_feed new_adv_processor ys) = drop (length ys - 300) (map (\<lambda>p. green (fst p)) ys) \<and>
   adv_blueBuffer (adv_feed new_adv_processor ys) = drop (length ys - 300) (map (\<lambda>p. blue (fst p)) ys) \<and>
   adv_timestamps (adv_feed new_adv_processor ys) = drop (length ys - 300) (map snd ys)"
proof (induction ys rule: rev_induct)
  case Nil
  show ?case by (simp add: adv_feed_def new_adv_processor_def)
next
  case (snoc y ys)
  obtain v t where y: "y = (v, t)" by (cases y)
  let ?s = "adv_feed new_adv_processor ys"
  from snoc have cap: "adv_bufferSize ?s = 300"
    and rd: "adv_redBuffer ?s = drop (length (map (\<lambda>p. red (fst p)) ys) - 300) (map (\<lambda>p. red (fst p)) ys)"
    and gr: "adv_greenBuffer ?s = drop (length (map (\<lambda>p. green (fst p)) ys) - 300) (map (\<lambda>p. green (fst p)) ys)"
    and bl: "adv_blueBuffer ?s = drop (length (map (\<lambda>p. blue (fst p)) ys) - 300) (map (\<lambda>p. blue (fst p)) ys)"
    and tm: "adv_timestamps ?s = drop (length (map snd ys) - 300) (map snd ys)"
    by simp_all
  have lens: "length (adv_greenBuffer ?s) = length (adv_redBuffer ?s)"
    "length (adv_blueBuffer ?s) = length (adv_redBuffer ?s)"
    "length (adv_timestamps ?s) = length (adv_redBuffer ?s)"
    unfolding rd gr bl tm by simp_all
  have le: "length (adv_redBuffer ?s) \<le> adv_bufferSize ?s" unfolding rd cap by simp
  have step: "adv_feed new_adv_processor (ys @ [y]) = adv_addToBuffer ?s v t"
    by (simp add: adv_feed_def y)
  have R: "adv_redBuffer (adv_addToBuffer ?s v t) =
           (if length (adv_redBuffer ?s) = 300 then shift (adv_redBuffer ?s @ [red v])
            else adv_redBuffer ?s @ [red v])"
    and G: "adv_greenBuffer (adv_addToBuffer ?s v t) =
           (if length (adv_greenBuffer ?s) = 300 then shift (adv_greenBuffer ?s @ [green v])
            else adv_greenBuffer ?s @ [green v])"
    and B: "adv_blueBuffer (adv_addToBuffer ?s v t) =
           (if length (adv_blueBuffer ?s) = 300 then shift (adv_blueBuffer ?s @ [blue v])
            else adv_blueBuffer ?s @ [blue v])"
    and T: "adv_timestamps (adv_addToBuffer ?s v t) =
           (if length (adv_timestamps ?s) = 300 then shift (adv_timestamps ?s @ [t])
            else adv_timestamps ?s @ [t])"
    and C: "adv_bufferSize (adv_addToBuffer ?s v t) = 300"
    unfolding adv_addToBuffer_unfold [OF le] lens using cap by simp_all
  show ?case
    unfolding step R G B T C
      window_step [OF rd] window_step [OF gr] window_step [OF bl] window_step [OF tm]
    by (simp add: y)
qed

text \<open>
  Claim C1. Appending any sequence of \<open>N\<close> samples to a fresh \<^verbatim>\<open>RealPPGProcessor\<close> leaves
  a buffer of length \<open>min N 300\<close> that holds the last 300 samples in arrival order (all of them
  when \<open>N \<le> 300\<close>): the oldest are evicted first. The same holds for each of the four buffers
  of a fresh \<^verbatim>\<open>AdvancedPPGProcessor\<close>.
\<close>

theorem buffer_is_last_capacity_samples:
  "signalBuffer (foldl addToBuffer new_processor xs) = drop (length xs - 300) xs \<and>
   length (signalBuffer (foldl addToBuffer new_processor xs)) = min (length xs) 300 \<and>
   adv_redBuffer (adv_feed new_adv_processor ys)
     = drop (length ys - 300) (map (\<lambda>p. red (fst p)) ys) \<and>
   adv_greenBuffer (adv_feed new_adv_processor ys)
     = drop (length ys - 300) (map (\<lambda>p. green (fst p)) ys) \<and>
   adv_blueBuffer (adv_feed new_adv_processor ys)
     = drop (length ys - 300) (map (\<lambda>p. blue (fst p)) ys) \<and>
   adv_timestamps (adv_feed new_adv_processor ys) = drop (length ys - 300) (map snd ys) \<and>
   length (adv_greenBuffer (adv_feed new_adv_processor ys)) = min (length ys) 300"
proof -
  have w: "signalBuffer (foldl addToBuffer new_processor xs) = drop (length xs - 300) xs"
    using foldl_addToBuffer_window [of new_processor xs] by (simp add: new_processor_def)
  have l: "length (signalBuffer (foldl addToBuffer new_processor xs)) = min (length xs) 300"
    unfolding w by simp
  note a = adv_window [of ys]
  have g: "length (adv_greenBuffer (adv_feed new_adv_processor ys)) = min (length ys) 300"
    using a by simp
  from w l a g show ?thesis by blast
qed

section \<open>The parallel buffers of the simulated processors stay aligned\<close>

lemma adv_trim_synced: "adv_synced s \<Longrightarrow> adv_synced (adv_trim s)"
proof (induction s rule: adv_trim.induct)
  case (1 s)
  show ?case
  proof (cases "length (adv_redBuffer s) > adv_bufferSize s")
    case True
    have "adv_synced (s\<lparr>adv_redBuffer := shift (adv_redBuffer s),
                         adv_greenBuffer := shift (adv_greenBuffer s),
                         adv_blueBuffer := shift (adv_blueBuffer s),
                         adv_timestamps := shift (adv_timestamps s)\<rparr>)"
      using "1.prems" by (simp add: adv_synced_def shift_def)
    from "1.IH" [OF True this] show ?thesis using True by (subst adv_trim.simps) simp
  next
    case False
    then show ?thesis using "1.prems" by (subst adv_trim.simps) simp
  qed
qed

lemma adv_step_synced: "adv_synced s \<Longrightarrow> adv_synced (adv_step s c)"
proof (cases c)
  case (AdvProcessFrame v ts hr)
  assume a: "adv_synced s"
  have "adv_synced (adv_addToBuffer s v ts)"
    unfolding adv_addToBuffer_def by (rule adv_trim_synced) (use a in \<open>simp add: adv_synced_def\<close>)
  then show ?thesis unfolding AdvProcessFrame
    by (auto simp: adv_processFrame_def adv_calculateHeartRate_def adv_synced_def Let_def
             split: option.splits prod.splits if_splits)
next
  case (AdvAddToBuffer v ts)
  assume a: "adv_synced s"
  show ?thesis unfolding AdvAddToBuffer adv_step.simps adv_addToBuffer_def
    by (rule adv_trim_synced) (use a in \<open>simp add: adv_synced_def\<close>)
next
  case AdvReset
  show ?thesis unfolding AdvReset by (simp add: adv_reset_def adv_synced_def)
qed

lemma adv_run_synced: "adv_synced s \<Longrightarrow> adv_synced (foldl adv_step s cs)"
  by (induction cs arbitrary: s) (simp_all add: adv_step_synced)

lemma enh_trim_synced: "enh_synced s \<Longrightarrow> enh_synced (enh_trim s)"
proof (induction s rule: enh_trim.induct)
  case (1 s)
  show ?case
  proof (cases "length (enh_redBuffer s) > enh_bufferSize s")
    case True
    have "enh_synced (s\<lparr>enh_redBuffer := shift (enh_redBuffer s),
                         enh_greenBuffer := shift (enh_greenBuffer s),
                         enh_blueBuffer := shift (enh_blueBuffer s),
                         enh_timestamps := shift (enh_timestamps s)\<rparr>)"
      using "1.prems" by (simp add: enh_synced_def shift_def)
    from "1.IH" [OF True this] show ?thesis using True by (subst enh_trim.simps) simp
  next
    case False
    then show ?thesis using "1.prems" by (subst enh_trim.simps) simp
  qed
qed

lemma enh_step_synced: "enh_synced s \<Longrightarrow> enh_synced (enh_step s k)"
proof (cases k)
  case (EnhProcessFrame v ts hr c)
  assume a: "enh_synced s"
  have "enh_synced (enh_addToBuffer s v ts)"
    unfolding enh_addToBuffer_def by (rule enh_trim_synced) (use a in \<open>simp add: enh_synced_def\<close>)
  then show ?thesis using a unfolding EnhProcessFrame
    by (auto simp: enh_processFrame_def enh_calculateMetrics_def enh_synced_def Let_def
             split: option.splits prod.splits if_splits)
next
  case (EnhAddToBuffer v ts)
  assume a: "enh_synced s"
  show ?thesis unfolding EnhAddToBuffer enh_step.simps enh_addToBuffer_def
    by (rule enh_trim_synced) (use a in \<open>simp add: enh_synced_def\<close>)
next
  case EnhReset
  show ?thesis unfolding EnhReset by (simp add: enh_reset_def enh_synced_def)
qed

lemma enh_run_synced: "enh_synced s \<Longrightarrow> enh_synced (foldl enh_step s cs)"
  by (induction cs arbitrary: s) (simp_all add: enh_step_synced)

text \<open>
  Claim C10. In both simulated processors the red, green, blue and timestamp arrays have the
  same length after every sequence of \<^verbatim>\<open>processFrame\<close>, \<^verbatim>\<open>addToBuffer\<close> and
  \<^verbatim>\<open>reset\<close> calls on a fresh processor.
\<close>

theorem parallel_buffers_equal_length:
  "adv_synced (foldl adv_step new_adv_processor cs) \<and>
   enh_synced (foldl enh_step new_enh_processor ks)"
proof -
  have "adv_synced new_adv_processor" by (simp add: adv_synced_def new_adv_processor_def)
  then have a: "adv_synced (foldl adv_step new_adv_processor cs)" by (rule adv_run_synced)
  have "enh_synced new_enh_processor" by (simp add: enh_synced_def new_enh_processor_def)
  then have e: "enh_synced (foldl enh_step new_enh_processor ks)" by (rule enh_run_synced)
  from a e show ?thesis by blast
qed

section \<open>Finger detection hysteresis\<close>

lemma streak_snoc: "streak (cs @ [c]) = (if c then Suc (streak cs) else 0)"
  by (simp add: streak_def)

lemma detect_all_snoc:
  "detect_all d (as @ [a]) =
     (fst (detect_all d as) @ [fst (detectFinger (snd (detect_all d as)) a)],
      snd (detectFinger (snd (detect_all d as)) a))"
  by (induction as arbitrary: d) (simp_all add: split_beta Let_def)

lemma detectFinger_classify:
  assumes "detector_inv d n"
  shows "detector_inv (snd (detectFinger d (classify c))) (if c then Suc n else 0)"
    and "det_fingerDetected (fst (detectFinger d (classify c))) = (5 \<le> (if c then Suc n else 0))"
    and "det_confidence (fst (detectFinger d (classify c))) = real (if c then Suc n else 0) / 5"
  using assms by (auto simp: detector_inv_def detectFinger_def classify_def Let_def)

lemma detect_all_inv:
  "detector_inv (snd (detect_all new_detector (map classify cs))) (streak cs)"
proof (induction cs rule: rev_induct)
  case Nil
  show ?case by (simp add: detector_inv_def new_detector_def streak_def)
next
  case (snoc c cs)
  show ?case
    using detectFinger_classify(1) [OF snoc, of c]
    by (simp add: detect_all_snoc streak_snoc)
qed

lemma detectFinger_pos:
  "detectFinger \<lparr>fingerDetected = f, consecutiveDetections = n, requiredDetections = q\<rparr>
                (FingerContour c) =
     (\<lparr>det_fingerDetected = (f \<or> q \<le> Suc n), det_confidence = real (Suc n) / real q,
        det_contour = Some c\<rparr>,
      \<lparr>fingerDetected = (f \<or> q \<le> Suc n), consecutiveDetections = Suc n,
        requiredDetections = q\<rparr>)"
  by (simp add: detectFinger_def Let_def)

lemma detectFinger_neg:
  "detectFinger \<lparr>fingerDetected = f, consecutiveDetections = n, requiredDetections = q\<rparr>
                NoFingerContour =
     (\<lparr>det_fingerDetected = False, det_confidence = 0, det_contour = None\<rparr>,
      \<lparr>fingerDetected = False, consecutiveDetections = 0, requiredDetections = q\<rparr>)"
  by (simp add: detectFinger_def Let_def)

text \<open>
  Claim C3. After any sequence of per-frame classifications given to a fresh detector, the
  counter equals the length of the current run of positives and \<^verbatim>\<open>fingerDetected\<close> holds
  exactly when that run has reached 5; the answer returned for the last frame carries the same
  flag. A negative classification sets the counter to 0 and the flag to false whatever the
  state was. On four positives, one negative and five positives the flag is false for the
  first nine frames and true on the tenth.
\<close>

theorem detected_after_five_consecutive_positives:
  "consecutiveDetections (snd (detect_all new_detector (map classify cs))) = streak cs \<and>
   fingerDetected (snd (detect_all new_detector (map classify cs))) = (5 \<le> streak cs) \<and>
   det_fingerDetected (last (fst (detect_all new_detector (map classify (cs @ [c])))))
     = (5 \<le> streak (cs @ [c])) \<and>
   streak (cs @ [False]) = 0 \<and>
   fingerDetected (snd (detectFinger d NoFingerContour)) = False \<and>
   consecutiveDetections (snd (detectFinger d NoFingerContour)) = 0 \<and>
   map det_fingerDetected (fst (detect_all new_detector (map classify
       [True, True, True, True, False, True, True, True, True, True])))
     = [False, False, False, False, False, False, False, False, False, True]"
proof -
  have inv: "detector_inv (snd (detect_all new_detector (map classify cs))) (streak cs)"
    by (rule detect_all_inv)
  have a: "consecutiveDetections (snd (detect_all new_detector (map classify cs))) = streak cs"
    and b: "fingerDetected (snd (detect_all new_detector (map classify cs))) = (5 \<le> streak cs)"
    using inv by (simp_all add: detector_inv_def)
  have c: "det_fingerDetected (last (fst (detect_all new_detector (map classify (cs @ [c])))))
     = (5 \<le> streak (cs @ [c]))"
    using detectFinger_classify(2) [OF inv, of c] by (simp add: detect_all_snoc streak_snoc)
  have d: "streak (cs @ [False]) = 0" by (simp add: streak_snoc)
  have e: "fingerDetected (snd (detectFinger d NoFingerContour)) = False"
    and f: "consecutiveDetections (snd (detectFinger d NoFingerContour)) = 0"
    by (simp_all add: detectFinger_def Let_def)
  have g: "map det_fingerDetected (fst (detect_all new_detector (map classify
       [True, True, True, True, False, True, True, True, True, True])))
     = [False, False, False, False, False, False, False, False, False, True]"
    by (simp add: detectFinger_pos detectFinger_neg classify_def new_detector_def)
  from a b c d e f g show ?thesis by blast
qed

text \<open>
  Claim C9, as amended. The confidence returned for a classified frame is the quotient
  \<^verbatim>\<open>consecutiveDetections / requiredDetections\<close>, not clamped: after a run of \<open>k\<close> positives
  it is \<open>k / 5\<close>, which is at most 1 exactly while \<open>k \<le> 5\<close>. When the image analysis throws,
  the handler answers confidence 0.
\<close>

theorem detector_confidence_is_unclamped_quotient:
  "det_confidence (last (fst (detect_all new_detector (map classify (cs @ [c])))))
     = real (streak (cs @ [c])) / 5 \<and>
   (det_confidence (last (fst (detect_all new_detector (map classify (cs @ [c]))))) \<le> 1)
     = (streak (cs @ [c]) \<le> 5) \<and>
   det_confidence (fst (detectFinger d AnalysisThrows)) = 0"
proof -
  have inv: "detector_inv (snd (detect_all new_detector (map classify cs))) (streak cs)"
    by (rule detect_all_inv)
  have a: "det_confidence (last (fst (detect_all new_detector (map classify (cs @ [c])))))
     = real (streak (cs @ [c])) / 5"
    using detectFinger_classify(3) [OF inv, of c] by (simp add: detect_all_snoc streak_snoc)
  have b: "(det_confidence (last (fst (detect_all new_detector (map classify (cs @ [c]))))) \<le> 1)
     = (streak (cs @ [c]) \<le> 5)"
    unfolding a by simp
  have c: "det_confidence (fst (detectFinger d AnalysisThrows)) = 0"
    by (simp add: detectFinger_def)
  from a b c show ?thesis by blast
qed

text \<open>
  Claim C9 as stated fails: after six consecutive positive classifications the returned
  confidence is \<open>6 / 5\<close>, above 1.
\<close>

theorem detector_confidence_exceeds_one:
  "1 < det_confidence (last (fst (detect_all new_detector (map classify
       [True, True, True, True, True, True]))))"
  by (simp add: detectFinger_pos detectFinger_neg classify_def new_detector_def)


section \<open>The per-frame entry point\<close>

lemma calculateVitalSigns_buffer:
  "signalBuffer (snd (calculateVitalSigns s rnd)) = signalBuffer s"
  by (simp add: calculateVitalSigns_def updateHeartRateHistory_def updateBPHistory_def Let_def
           split: option.splits)


text \<open>
  Claim C6, as amended. \<^verbatim>\<open>processFrame\<close> resolves to \<^verbatim>\<open>null\<close> exactly when the throttle
  rejects the call, or \<^verbatim>\<open>extractImageData\<close> yields no image data, or the finger is detected
  and \<^verbatim>\<open>extractPPGSignal\<close> yields no sample; every other call resolves to a result object.
\<close>

theorem null_result_iff:
  "(fst (processFrame s env) = None) =
     (now env - lastProcessTime s < processingInterval s \<or>
      imageData env = None \<or>
      (det_fingerDetected (fst (detectFinger (fingerDetector s) (frame_analysis env))) \<and>
       extractPPGSignal (det_contour (fst (detectFinger (fingerDetector s) (frame_analysis env))))
                        (pixelSample env) = None))"
  by (simp add: processFrame_def Let_def split_beta split: option.splits)

text \<open>
  Claim C6 as stated fails: on a fresh processor a call at clock 1000 is not throttled
  (1000 - 0 is not below 33), yet it resolves to \<^verbatim>\<open>null\<close> because the image extraction
  returned \<^verbatim>\<open>null\<close>.
\<close>

theorem null_without_throttle:
  "\<not> (now env_no_image - lastProcessTime new_processor < processingInterval new_processor) \<and>
   fst (processFrame new_processor env_no_image) = None"
  by (simp add: processFrame_def env_no_image_def new_processor_def)




text \<open>
  Claim C8, as amended. An exception inside a stage is absorbed by that stage's own handler:
  when \<^verbatim>\<open>extractImageData\<close> throws, \<^verbatim>\<open>processFrame\<close> resolves to \<^verbatim>\<open>null\<close>; when the
  detector's image analysis throws, it resolves to the not-detected result (quality
  \<^verbatim>\<open>'poor'\<close>, confidence 0, with the finger-placement message). In both cases the processor
  is left as it was except for \<^verbatim>\<open>lastProcessTime\<close>: signal buffer, histories and detector
  counters are unchanged, and later frames are processed as before.
\<close>

theorem stage_exception_absorbed:
  assumes "\<not> now env - lastProcessTime s < processingInterval s"
  shows "processFrame s (env\<lparr>imageData := None\<rparr>) = (None, s\<lparr>lastProcessTime := now env\<rparr>) \<and>
         processFrame s (env\<lparr>imageData := Some img, frame_analysis := AnalysisThrows\<rparr>) =
           (Some \<lparr>res_fingerDetected = False, res_message = Some PlaceFinger,
                  res_heartRate = None, res_bloodPressure = None, res_confidence = 0,
                  res_quality = Poor, res_signalData = None, res_temperature = None,
                  res_childAge = None\<rparr>,
            s\<lparr>lastProcessTime := now env\<rparr>)"
  using assms by (simp add: processFrame_def detectFinger_def Let_def)

theorem stage_exception_absorbed_witness:
  "\<not> now env_no_image - lastProcessTime new_processor < processingInterval new_processor \<and>
   processFrame new_processor (env_no_image\<lparr>imageData := None\<rparr>)
     = (None, new_processor\<lparr>lastProcessTime := 1000\<rparr>) \<and>
   signalBuffer (snd (processFrame new_processor
       (env_no_image\<lparr>imageData := Some [], frame_analysis := AnalysisThrows\<rparr>))) = []"
proof -
  have h: "\<not> now env_no_image - lastProcessTime new_processor < processingInterval new_processor"
    by (simp add: env_no_image_def new_processor_def)
  from stage_exception_absorbed [OF h, of "[]"] h show ?thesis
    by (simp add: env_no_image_def new_processor_def)
qed

text \<open>
  Claim C8 as stated fails: a frame on which the detector's analysis throws gets quality
  \<^verbatim>\<open>'poor'\<close>, not \<^verbatim>\<open>'error'\<close>, and a frame whose image extraction throws gets no result
  object at all.
\<close>

theorem stage_exception_not_error_result:
  "fst (processFrame s_detecting env_analysis_throws) =
     Some \<lparr>res_fingerDetected = False, res_message = Some PlaceFinger,
            res_heartRate = None, res_bloodPressure = None, res_confidence = 0,
            res_quality = Poor, res_signalData = None, res_temperature = None,
            res_childAge = None\<rparr> \<and>
   fst (processFrame s_detecting (env_finger\<lparr>imageData := None\<rparr>)) = None"
  by (simp add: processFrame_def detectFinger_def s_detecting_def env_analysis_throws_def
        env_finger_def new_processor_def)


section \<open>The heart-rate estimate stays in the age band\<close>

lemma js_round_bounds:
  "real_of_int lo \<le> x \<Longrightarrow> x \<le> real_of_int hi \<Longrightarrow> lo \<le> js_round x \<and> js_round x \<le> hi"
  unfolding js_round_def by (simp add: le_floor_iff floor_le_iff)

lemma js_round_int: "js_round (real_of_int n) = n"
  unfolding js_round_def by linarith

lemma calculateHeartRate_band:
  assumes "calculateHeartRate s signal timestamps = Some h"
  shows "(childAge s \<le> 1 \<and> 100 \<le> h \<and> h \<le> 160) \<or>
         (1 < childAge s \<and> childAge s \<le> 3 \<and> 80 \<le> h \<and> h \<le> 140) \<or>
         (3 < childAge s \<and> childAge s \<le> 5 \<and> 70 \<le> h \<and> h \<le> 120) \<or>
         (5 < childAge s \<and> childAge s \<le> 7 \<and> 65 \<le> h \<and> h \<le> 110) \<or>
         (7 < childAge s \<and> 60 \<le> h \<and> h \<le> 100)"
proof -
  from assms obtain x where h: "h = js_round (applyAgeConstraints s x)"
    by (auto simp: calculateHeartRate_def Let_def split: if_splits)
  consider "childAge s \<le> 1" | "1 < childAge s" "childAge s \<le> 3" | "3 < childAge s" "childAge s \<le> 5"
    | "5 < childAge s" "childAge s \<le> 7" | "7 < childAge s" by linarith
  then show ?thesis
  proof cases
    case 1
    then have "applyAgeConstraints s x = max 100 (min 160 x)" by (simp add: applyAgeConstraints_def)
    with js_round_bounds [of 100 "max 100 (min 160 x)" 160] 1 h show ?thesis by simp
  next
    case 2
    then have "applyAgeConstraints s x = max 80 (min 140 x)" by (simp add: applyAgeConstraints_def)
    with js_round_bounds [of 80 "max 80 (min 140 x)" 140] 2 h show ?thesis by simp
  next
    case 3
    then have "applyAgeConstraints s x = max 70 (min 120 x)" by (simp add: applyAgeConstraints_def)
    with js_round_bounds [of 70 "max 70 (min 120 x)" 120] 3 h show ?thesis by simp
  next
    case 4
    then have "applyAgeConstraints s x = max 65 (min 110 x)" by (simp add: applyAgeConstraints_def)
    with js_round_bounds [of 65 "max 65 (min 110 x)" 110] 4 h show ?thesis by simp
  next
    case 5
    then have "applyAgeConstraints s x = max 60 (min 100 x)" by (simp add: applyAgeConstraints_def)
    with js_round_bounds [of 60 "max 60 (min 100 x)" 100] 5 h show ?thesis by simp
  qed
qed

section \<open>Estimates on the recorded signal\<close>

lemma calculateVitalSigns_heartRate:
  "minValidSamples s \<le> length (signalBuffer s) \<Longrightarrow>
   vs_heartRate (fst (calculateVitalSigns s rnd)) = current_estimate s"
  by (simp add: calculateVitalSigns_def current_estimate_def Let_def)

lemma calculateVitalSigns_state:
  "minValidSamples s \<le> length (signalBuffer s) \<Longrightarrow>
   snd (calculateVitalSigns s rnd) =
     s\<lparr>heartRateHistory :=
          (case current_estimate s of
             None \<Rightarrow> heartRateHistory s
           | Some h \<Rightarrow> if h = 0 then heartRateHistory s
                      else heartRateHistory (updateHeartRateHistory s h)),
        bpHistory := bpHistory (snd (calculateVitalSigns s rnd))\<rparr>"
  by (simp add: calculateVitalSigns_def current_estimate_def updateHeartRateHistory_def
        updateBPHistory_def Let_def split: option.splits)

lemma samples_Suc: "samples (Suc n) = samples n @ [sample_at n]"
  by (simp add: samples_def)

lemma length_samples: "length (samples n) = n"
  by (simp add: samples_def)

lemma amplitude_unfold:
  "amplitude (extractPulseWaveFeatures signal) =
     sqrt (sum_list (map (\<lambda>val. (val - sum_list signal / real (length signal)) ^ 2) signal)
           / real (length signal))"
  by (simp add: extractPulseWaveFeatures_def Let_def)

text \<open>
  The conditioned signal and the estimate for the first 90 and the first 91 samples of the
  recording, stage by stage: raw values, timestamps, after mean removal, after the band-pass
  filter, after smoothing, after normalisation.
\<close>

lemma estimate_90:
  assumes "childAge s = 5"
  shows "calculateHeartRate s (applySignalProcessing s (map ppg_value (samples 90)))
                              (map timestamp (samples 90)) = Some 100"
    and "amplitude (extractPulseWaveFeatures
                      (applySignalProcessing s (map ppg_value (samples 90))))
         = sqrt (3562001 / 89302500)"
proof -
  let ?V = "[
        1 / 10, 0, 1 / 10, 1 / 5, 3 / 10, 2 / 5, 1 / 2, 2 / 5,
        3 / 10, 1 / 5, 1 / 10, 0, 1 / 10, 1 / 5, 3 / 10, 2 / 5,
        1 / 2, 2 / 5, 3 / 10, 1 / 5, 1 / 10, 0, 1 / 10, 1 / 5,
        3 / 10, 2 / 5, 1 / 2, 2 / 5, 3 / 10, 1 / 5, 1 / 10, 0,
        1 / 10, 1 / 5, 3 / 10, 2 / 5, 1 / 2, 2 / 5, 3 / 10, 1 / 5,
        1 / 10, 0, 1 / 10, 1 / 5, 3 / 10, 2 / 5, 1 / 2, 2 / 5,
        3 / 10, 1 / 5, 1 / 10, 0, 1 / 10, 1 / 5, 3 / 10, 2 / 5,
        1 / 2, 2 / 5, 3 / 10, 1 / 5, 1 / 10, 0, 1 / 10, 1 / 5,
        3 / 10, 2 / 5, 1 / 2, 2 / 5, 3 / 10, 1 / 5, 1 / 10, 0,
        1 / 10, 1 / 5, 3 / 10, 2 / 5, 1 / 2, 2 / 5, 3 / 10, 1 / 5,
        1 / 10, 0, 1 / 10, 1 / 5, 3 / 10, 2 / 5, 1 / 2, 2 / 5,
        3 / 10, 1 / 5] :: real list"
  let ?T = "[
        3 / 10, 9 / 25, 21 / 50, 12 / 25, 27 / 50, 3 / 5, 33 / 50, 18 / 25,
        39 / 50, 21 / 25, 9 / 10, 24 / 25, 51 / 50, 27 / 25, 57 / 50, 6 / 5,
        63 / 50, 33 / 25, 69 / 50, 36 / 25, 3 / 2, 39 / 25, 81 / 50, 42 / 25,
        87 / 50, 9 / 5, 93 / 50, 48 / 25, 99 / 50, 51 / 25, 21 / 10, 54 / 25,
        111 / 50, 57 / 25, 117 / 50, 12 / 5, 123 / 50, 63 / 25, 129 / 50, 66 / 25,
        27 / 10, 69 / 25, 141 / 50, 72 / 25, 147 / 50, 3, 153 / 50, 78 / 25,
        159 / 50, 81 / 25, 33 / 10, 84 / 25, 171 / 50, 87 / 25, 177 / 50, 18 / 5,
        183 / 50, 93 / 25, 189 / 50, 96 / 25, 39 / 10, 99 / 25, 201 / 50, 102 / 25,
        207 / 50, 21 / 5, 213 / 50, 108 / 25, 219 / 50, 111 / 25, 9 / 2, 114 / 25,
        231 / 50, 117 / 25, 237 / 50, 24 / 5, 243 / 50, 123 / 25, 249 / 50, 126 / 25,
        51 / 10, 129 / 25, 261 / 50, 132 / 25, 267 / 50, 27 / 5, 273 / 50, 138 / 25,
        279 / 50, 141 / 25] :: real list"
  let ?D = "[
        - (3 / 20), - (1 / 4), - (3 / 20), - (1 / 20), 1 / 20, 3 / 20, 1 / 4, 3 / 20,
        1 / 20, - (1 / 20), - (3 / 20), - (1 / 4), - (3 / 20), - (1 / 20), 1 / 20, 3 / 20,
        1 / 4, 3 / 20, 1 / 20, - (1 / 20), - (3 / 20), - (1 / 4), - (3 / 20), - (1 / 20),
        1 / 20, 3 / 20, 1 / 4, 3 / 20, 1 / 20, - (1 / 20), - (3 / 20), - (1 / 4),
        - (3 / 20), - (1 / 20), 1 / 20, 3 / 20, 1 / 4, 3 / 20, 1 / 20, - (1 / 20),
        - (3 / 20), - (1 / 4), - (3 / 20), - (1 / 20), 1 / 20, 3 / 20, 1 / 4, 3 / 20,
        1 / 20, - (1 / 20), - (3 / 20), - (1 / 4), - (3 / 20), - (1 / 20), 1 / 20, 3 / 20,
        1 / 4, 3 / 20, 1 / 20, - (1 / 20), - (3 / 20), - (1 / 4), - (3 / 20), - (1 / 20),
        1 / 20, 3 / 20, 1 / 4, 3 / 20, 1 / 20, - (1 / 20), - (3 / 20), - (1 / 4),
        - (3 / 20), - (1 / 20), 1 / 20, 3 / 20, 1 / 4, 3 / 20, 1 / 20, - (1 / 20),
        - (3 / 20), - (1 / 4), - (3 / 20), - (1 / 20), 1 / 20, 3 / 20, 1 / 4, 3 / 20,
        1 / 20, - (1 / 20)] :: real list"
  let ?B = "[
        - (3 / 20), - (1 / 4), - (3 / 20), - (1 / 20), - (13 / 100), - (1 / 20), 1 / 20, 13 / 100,
        17 / 100, 13 / 100, 1 / 20, - (1 / 20), - (13 / 100), - (17 / 100), - (13 / 100), - (1 / 20),
        1 / 20, 13 / 100, 17 / 100, 13 / 100, 1 / 20, - (1 / 20), - (13 / 100), - (17 / 100),
        - (13 / 100), - (1 / 20), 1 / 20, 13 / 100, 17 / 100, 13 / 100, 1 / 20, - (1 / 20),
        - (13 / 100), - (17 / 100), - (13 / 100), - (1 / 20), 1 / 20, 13 / 100, 17 / 100, 13 / 100,
        1 / 20, - (1 / 20), - (13 / 100), - (17 / 100), - (13 / 100), - (1 / 20), 1 / 20, 13 / 100,
        17 / 100, 13 / 100, 1 / 20, - (1 / 20), - (13 / 100), - (17 / 100), - (13 / 100), - (1 / 20),
        1 / 20, 13 / 100, 17 / 100, 13 / 100, 1 / 20, - (1 / 20), - (13 / 100), - (17 / 100),
        - (13 / 100), - (1 / 20), 1 / 20, 13 / 100, 17 / 100, 13 / 100, 1 / 20, - (1 / 20),
        - (13 / 100), - (17 / 100), - (13 / 100), - (1 / 20), 1 / 20, 13 / 100, 17 / 100, 13 / 100,
        1 / 20, - (1 / 20), - (13 / 100), - (17 / 100), - (13 / 100), - (1 / 20), 1 / 20, 13 / 100,
        17 / 100, 13 / 100] :: real list"
  let ?G = "[
        - (3 / 20), - (1 / 4), - (73 / 500), - (63 / 500), - (33 / 500), - (1 / 100), 17 / 500, 43 / 500,
        53 / 500, 43 / 500, 17 / 500, - (17 / 500), - (43 / 500), - (53 / 500), - (43 / 500), - (17 / 500),
        17 / 500, 43 / 500, 53 / 500, 43 / 500, 17 / 500, - (17 / 500), - (43 / 500), - (53 / 500),
        - (43 / 500), - (17 / 500), 17 / 500, 43 / 500, 53 / 500, 43 / 500, 17 / 500, - (17 / 500),
        - (43 / 500), - (53 / 500), - (43 / 500), - (17 / 500), 17 / 500, 43 / 500, 53 / 500, 43 / 500,
        17 / 500, - (17 / 500), - (43 / 500), - (53 / 500), - (43 / 500), - (17 / 500), 17 / 500, 43 / 500,
        53 / 500, 43 / 500, 17 / 500, - (17 / 500), - (43 / 500), - (53 / 500), - (43 / 500), - (17 / 500),
        17 / 500, 43 / 500, 53 / 500, 43 / 500, 17 / 500, - (17 / 500), - (43 / 500), - (53 / 500),
        - (43 / 500), - (17 / 500), 17 / 500, 43 / 500, 53 / 500, 43 / 500, 17 / 500, - (17 / 500),
        - (43 / 500), - (53 / 500), - (43 / 500), - (17 / 500), 17 / 500, 43 / 500, 53 / 500, 43 / 500,
        17 / 500, - (17 / 500), - (43 / 500), - (53 / 500), - (43 / 500), - (17 / 500), 17 / 500, 43 / 500,
        17 / 100, 13 / 100] :: real list"
  let ?N = "[
        5 / 21, 0, 26 / 105, 31 / 105, 46 / 105, 4 / 7, 71 / 105, 4 / 5,
        89 / 105, 4 / 5, 71 / 105, 18 / 35, 41 / 105, 12 / 35, 41 / 105, 18 / 35,
        71 / 105, 4 / 5, 89 / 105, 4 / 5, 71 / 105, 18 / 35, 41 / 105, 12 / 35,
        41 / 105, 18 / 35, 71 / 105, 4 / 5, 89 / 105, 4 / 5, 71 / 105, 18 / 35,
        41 / 105, 12 / 35, 41 / 105, 18 / 35, 71 / 105, 4 / 5, 89 / 105, 4 / 5,
        71 / 105, 18 / 35, 41 / 105, 12 / 35, 41 / 105, 18 / 35, 71 / 105, 4 / 5,
        89 / 105, 4 / 5, 71 / 105, 18 / 35, 41 / 105, 12 / 35, 41 / 105, 18 / 35,
        71 / 105, 4 / 5, 89 / 105, 4 / 5, 71 / 105, 18 / 35, 41 / 105, 12 / 35,
        41 / 105, 18 / 35, 71 / 105, 4 / 5, 89 / 105, 4 / 5, 71 / 105, 18 / 35,
        41 / 105, 12 / 35, 41 / 105, 18 / 35, 71 / 105, 4 / 5, 89 / 105, 4 / 5,
        71 / 105, 18 / 35, 41 / 105, 12 / 35, 41 / 105, 18 / 35, 71 / 105, 4 / 5,
        1, 19 / 21] :: real list"
  have v: "map ppg_value (samples 90) = ?V"
    by (simp add: samples_def sample_at_def wave_def upt_rec)
  have t: "map timestamp (samples 90) = ?T"
    by (simp add: samples_def sample_at_def upt_rec)
  have d: "map (\<lambda>val. val - sum_list ?V / real (length ?V)) ?V = ?D"
    by simp
  have b: "bandpassFilter ?D (8 / 10) 3 (samplingRate s) = ?B"
    by (simp add: bandpassFilter_def upt_rec Let_def)
  have g: "savitzkyGolayFilter ?B 5 2 = ?G"
    by (simp add: savitzkyGolayFilter_def upt_rec Let_def)
  have n: "normalizeSignal ?G = ?N"
    by (simp add: normalizeSignal_def Let_def)
  have a: "applySignalProcessing s ?V = ?N"
    by (simp only: applySignalProcessing_def Let_def d b g n)
  have p: "findPeaks ?N ?T =
      [\<lparr>pk_index = 8, pk_timestamp = 39 / 50, pk_value = 89 / 105\<rparr>,
       \<lparr>pk_index = 18, pk_timestamp = 69 / 50, pk_value = 89 / 105\<rparr>,
       \<lparr>pk_index = 28, pk_timestamp = 99 / 50, pk_value = 89 / 105\<rparr>,
       \<lparr>pk_index = 38, pk_timestamp = 129 / 50, pk_value = 89 / 105\<rparr>,
       \<lparr>pk_index = 48, pk_timestamp = 159 / 50, pk_value = 89 / 105\<rparr>,
       \<lparr>pk_index = 58, pk_timestamp = 189 / 50, pk_value = 89 / 105\<rparr>,
       \<lparr>pk_index = 68, pk_timestamp = 219 / 50, pk_value = 89 / 105\<rparr>,
       \<lparr>pk_index = 78, pk_timestamp = 249 / 50, pk_value = 89 / 105\<rparr>,
       \<lparr>pk_index = 88, pk_timestamp = 279 / 50, pk_value = 1\<rparr>]"
    by (simp add: findPeaks_def findPeaks_step_def upt_rec Let_def)
  have m: "sum_list ?N / real (length ?N) = 5543 / 9450"
    by simp
  have q: "sum_list (map (\<lambda>val. (val - 5543 / 9450) ^ 2) ?N) / real (length ?N)
           = 3562001 / 89302500"
    by (simp add: power2_eq_square)
  show "calculateHeartRate s (applySignalProcessing s (map ppg_value (samples 90)))
                             (map timestamp (samples 90)) = Some 100"
    unfolding v t a calculateHeartRate_def p
    by (simp add: applyAgeConstraints_def assms js_round_def upt_rec Let_def)
  show "amplitude (extractPulseWaveFeatures
                     (applySignalProcessing s (map ppg_value (samples 90))))
        = sqrt (3562001 / 89302500)"
    unfolding v a by (simp only: amplitude_unfold m q)
qed

lemma estimate_91:
  assumes "childAge s = 5"
  shows "calculateHeartRate s (applySignalProcessing s (map ppg_value (samples 91)))
                              (map timestamp (samples 91)) = Some 99"
proof -
  let ?V = "[
        1 / 10, 0, 1 / 10, 1 / 5, 3 / 10, 2 / 5, 1 / 2, 2 / 5,
        3 / 10, 1 / 5, 1 / 10, 0, 1 / 10, 1 / 5, 3 / 10, 2 / 5,
        1 / 2, 2 / 5, 3 / 10, 1 / 5, 1 / 10, 0, 1 / 10, 1 / 5,
        3 / 10, 2 / 5, 1 / 2, 2 / 5, 3 / 10, 1 / 5, 1 / 10, 0,
        1 / 10, 1 / 5, 3 / 10, 2 / 5, 1 / 2, 2 / 5, 3 / 10, 1 / 5,
        1 / 10, 0, 1 / 10, 1 / 5, 3 / 10, 2 / 5, 1 / 2, 2 / 5,
        3 / 10, 1 / 5, 1 / 10, 0, 1 / 10, 1 / 5, 3 / 10, 2 / 5,
        1 / 2, 2 / 5, 3 / 10, 1 / 5, 1 / 10, 0, 1 / 10, 1 / 5,
        3 / 10, 2 / 5, 1 / 2, 2 / 5, 3 / 10, 1 / 5, 1 / 10, 0,
        1 / 10, 1 / 5, 3 / 10, 2 / 5, 1 / 2, 2 / 5, 3 / 10, 1 / 5,
        1 / 10, 0, 1 / 10, 1 / 5, 3 / 10, 2 / 5, 1 / 2, 2 / 5,
        3 / 10, 1 / 5, 1 / 10] :: real list"
  let ?T = "[
        3 / 10, 9 / 25, 21 / 50, 12 / 25, 27 / 50, 3 / 5, 33 / 50, 18 / 25,
        39 / 50, 21 / 25, 9 / 10, 24 / 25, 51 / 50, 27 / 25, 57 / 50, 6 / 5,
        63 / 50, 33 / 25, 69 / 50, 36 / 25, 3 / 2, 39 / 25, 81 / 50, 42 / 25,
        87 / 50, 9 / 5, 93 / 50, 48 / 25, 99 / 50, 51 / 25, 21 / 10, 54 / 25,
        111 / 50, 57 / 25, 117 / 50, 12 / 5, 123 / 50, 63 / 25, 129 / 50, 66 / 25,
        27 / 10, 69 / 25, 141 / 50, 72 / 25, 147 / 50, 3, 153 / 50, 78 / 25,
        159 / 50, 81 / 25, 33 / 10, 84 / 25, 171 / 50, 87 / 25, 177 / 50, 18 / 5,
        183 / 50, 93 / 25, 189 / 50, 96 / 25, 39 / 10, 99 / 25, 201 / 50, 102 / 25,
        207 / 50, 21 / 5, 213 / 50, 108 / 25, 219 / 50, 111 / 25, 9 / 2, 114 / 25,
        231 / 50, 117 / 25, 237 / 50, 24 / 5, 243 / 50, 123 / 25, 249 / 50, 126 / 25,
        51 / 10, 129 / 25, 261 / 50, 132 / 25, 267 / 50, 27 / 5, 273 / 50, 138 / 25,
        279 / 50, 141 / 25, 57 / 10] :: real list"
  let ?D = "[
        - (27 / 182), - (113 / 455), - (27 / 182), - (22 / 455), 47 / 910, 69 / 455, 229 / 910, 69 / 455,
        47 / 910, - (22 / 455), - (27 / 182), - (113 / 455), - (27 / 182), - (22 / 455), 47 / 910, 69 / 455,
        229 / 910, 69 / 455, 47 / 910, - (22 / 455), - (27 / 182), - (113 / 455), - (27 / 182), - (22 / 455),
        47 / 910, 69 / 455, 229 / 910, 69 / 455, 47 / 910, - (22 / 455), - (27 / 182), - (113 / 455),
        - (27 / 182), - (22 / 455), 47 / 910, 69 / 455, 229 / 910, 69 / 455, 47 / 910, - (22 / 455),
        - (27 / 182), - (113 / 455), - (27 / 182), - (22 / 455), 47 / 910, 69 / 455, 229 / 910, 69 / 455,
        47 / 910, - (22 / 455), - (27 / 182), - (113 / 455), - (27 / 182), - (22 / 455), 47 / 910, 69 / 455,
        229 / 910, 69 / 455, 47 / 910, - (22 / 455), - (27 / 182), - (113 / 455), - (27 / 182), - (22 / 455),
        47 / 910, 69 / 455, 229 / 910, 69 / 455, 47 / 910, - (22 / 455), - (27 / 182), - (113 / 455),
        - (27 / 182), - (22 / 455), 47 / 910, 69 / 455, 229 / 910, 69 / 455, 47 / 910, - (22 / 455),
        - (27 / 182), - (113 / 455), - (27 / 182), - (22 / 455), 47 / 910, 69 / 455, 229 / 910, 69 / 455,
        47 / 910, - (22 / 455), - (27 / 182)] :: real list"
  let ?B = "[
        - (27 / 182), - (113 / 455), - (27 / 182), - (22 / 455), - (292 / 2275), - (22 / 455), 47 / 910, 599 / 4550,
        781 / 4550, 599 / 4550, 47 / 910, - (22 / 455), - (292 / 2275), - (383 / 2275), - (292 / 2275), - (22 / 455),
        47 / 910, 599 / 4550, 781 / 4550, 599 / 4550, 47 / 910, - (22 / 455), - (292 / 2275), - (383 / 2275),
        - (292 / 2275), - (22 / 455), 47 / 910, 599 / 4550, 781 / 4550, 599 / 4550, 47 / 910, - (22 / 455),
        - (292 / 2275), - (383 / 2275), - (292 / 2275), - (22 / 455), 47 / 910, 599 / 4550, 781 / 4550, 599 / 4550,
        47 / 910, - (22 / 455), - (292 / 2275), - (383 / 2275), - (292 / 2275), - (22 / 455), 47 / 910, 599 / 4550,
        781 / 4550, 599 / 4550, 47 / 910, - (22 / 455), - (292 / 2275), - (383 / 2275), - (292 / 2275), - (22 / 455),
        47 / 910, 599 / 4550, 781 / 4550, 599 / 4550, 47 / 910, - (22 / 455), - (292 / 2275), - (383 / 2275),
        - (292 / 2275), - (22 / 455), 47 / 910, 599 / 4550, 781 / 4550, 599 / 4550, 47 / 910, - (22 / 455),
        - (292 / 2275), - (383 / 2275), - (292 / 2275), - (22 / 455), 47 / 910, 599 / 4550, 781 / 4550, 599 / 4550,
        47 / 910, - (22 / 455), - (292 / 2275), - (383 / 2275), - (292 / 2275), - (22 / 455), 47 / 910, 599 / 4550,
        781 / 4550, 599 / 4550, 47 / 910] :: real list"
  let ?G = "[
        - (27 / 182), - (113 / 455), - (1642 / 11375), - (2829 / 22750), - (732 / 11375), - (19 / 2275), 811 / 22750, 997 / 11375,
        2449 / 22750, 997 / 11375, 811 / 22750, - (368 / 11375), - (1919 / 22750), - (1187 / 11375), - (1919 / 22750), - (368 / 11375),
        811 / 22750, 997 / 11375, 2449 / 22750, 997 / 11375, 811 / 22750, - (368 / 11375), - (1919 / 22750), - (1187 / 11375),
        - (1919 / 22750), - (368 / 11375), 811 / 22750, 997 / 11375, 2449 / 22750, 997 / 11375, 811 / 22750, - (368 / 11375),
        - (1919 / 22750), - (1187 / 11375), - (1919 / 22750), - (368 / 11375), 811 / 22750, 997 / 11375, 2449 / 22750, 997 / 11375,
        811 / 22750, - (368 / 11375), - (1919 / 22750), - (1187 / 11375), - (1919 / 22750), - (368 / 11375), 811 / 22750, 997 / 11375,
        2449 / 22750, 997 / 11375, 811 / 22750, - (368 / 11375), - (1919 / 22750), - (1187 / 11375), - (1919 / 22750), - (368 / 11375),
        811 / 22750, 997 / 11375, 2449 / 22750, 997 / 11375, 811 / 22750, - (368 / 11375), - (1919 / 22750), - (1187 / 11375),
        - (1919 / 22750), - (368 / 11375), 811 / 22750, 997 / 11375, 2449 / 22750, 997 / 11375, 811 / 22750, - (368 / 11375),
        - (1919 / 22750), - (1187 / 11375), - (1919 / 22750), - (368 / 11375), 811 / 22750, 997 / 11375, 2449 / 22750, 997 / 11375,
        811 / 22750, - (368 / 11375), - (1919 / 22750), - (1187 / 11375), - (1919 / 22750), - (368 / 11375), 811 / 22750, 997 / 11375,
        2449 / 22750, 599 / 4550, 47 / 910] :: real list"
  let ?N = "[
        5 / 19, 0, 26 / 95, 31 / 95, 46 / 95, 12 / 19, 71 / 95, 84 / 95,
        89 / 95, 84 / 95, 71 / 95, 54 / 95, 41 / 95, 36 / 95, 41 / 95, 54 / 95,
        71 / 95, 84 / 95, 89 / 95, 84 / 95, 71 / 95, 54 / 95, 41 / 95, 36 / 95,
        41 / 95, 54 / 95, 71 / 95, 84 / 95, 89 / 95, 84 / 95, 71 / 95, 54 / 95,
        41 / 95, 36 / 95, 41 / 95, 54 / 95, 71 / 95, 84 / 95, 89 / 95, 84 / 95,
        71 / 95, 54 / 95, 41 / 95, 36 / 95, 41 / 95, 54 / 95, 71 / 95, 84 / 95,
        89 / 95, 84 / 95, 71 / 95, 54 / 95, 41 / 95, 36 / 95, 41 / 95, 54 / 95,
        71 / 95, 84 / 95, 89 / 95, 84 / 95, 71 / 95, 54 / 95, 41 / 95, 36 / 95,
        41 / 95, 54 / 95, 71 / 95, 84 / 95, 89 / 95, 84 / 95, 71 / 95, 54 / 95,
        41 / 95, 36 / 95, 41 / 95, 54 / 95, 71 / 95, 84 / 95, 89 / 95, 84 / 95,
        71 / 95, 54 / 95, 41 / 95, 36 / 95, 41 / 95, 54 / 95, 71 / 95, 84 / 95,
        89 / 95, 1, 15 / 19] :: real list"
  have v: "map ppg_value (samples 91) = ?V"
    by (simp add: samples_def sample_at_def wave_def upt_rec)
  have t: "map timestamp (samples 91) = ?T"
    by (simp add: samples_def sample_at_def upt_rec)
  have d: "map (\<lambda>val. val - sum_list ?V / real (length ?V)) ?V = ?D"
    by simp
  have b: "bandpassFilter ?D (8 / 10) 3 (samplingRate s) = ?B"
    by (simp add: bandpassFilter_def upt_rec Let_def)
  have g: "savitzkyGolayFilter ?B 5 2 = ?G"
    by (simp add: savitzkyGolayFilter_def upt_rec Let_def)
  have n: "normalizeSignal ?G = ?N"
    by (simp add: normalizeSignal_def Let_def)
  have a: "applySignalProcessing s ?V = ?N"
    by (simp only: applySignalProcessing_def Let_def d b g n)
  have p: "findPeaks ?N ?T =
      [\<lparr>pk_index = 8, pk_timestamp = 39 / 50, pk_value = 89 / 95\<rparr>,
       \<lparr>pk_index = 18, pk_timestamp = 69 / 50, pk_value = 89 / 95\<rparr>,
       \<lparr>pk_index = 28, pk_timestamp = 99 / 50, pk_value = 89 / 95\<rparr>,
       \<lparr>pk_index = 38, pk_timestamp = 129 / 50, pk_value = 89 / 95\<rparr>,
       \<lparr>pk_index = 48, pk_timestamp = 159 / 50, pk_value = 89 / 95\<rparr>,
       \<lparr>pk_index = 58, pk_timestamp = 189 / 50, pk_value = 89 / 95\<rparr>,
       \<lparr>pk_index = 68, pk_timestamp = 219 / 50, pk_value = 89 / 95\<rparr>,
       \<lparr>pk_index = 78, pk_timestamp = 249 / 50, pk_value = 89 / 95\<rparr>,
       \<lparr>pk_index = 89, pk_timestamp = 141 / 25, pk_value = 1\<rparr>]"
    by (simp add: findPeaks_def findPeaks_step_def upt_rec Let_def)
  show ?thesis
    unfolding v t a calculateHeartRate_def p
    by (simp add: applyAgeConstraints_def assms js_round_def upt_rec Let_def)
qed


section \<open>Blood pressure\<close>

lemma calculateSystolicBP_band:
  "70 \<le> calculateSystolicBP s pf hr \<and> calculateSystolicBP s pf hr \<le> 140"
  by (simp add: calculateSystolicBP_def Let_def)


lemma calculateSystolicBP_unfold:
  "calculateSystolicBP s pf hr =
     max 70 (min 140 (100 + (if hr > 100 then (hr - 100) * (3 / 10)
                             else if hr < 70 then - ((70 - hr) * (2 / 10)) else 0)
                          + (if amplitude pf > 3 / 10 then 10
                             else if amplitude pf < 1 / 10 then - 5 else 0)
                          + getAgeAdjustment s))"
  by (simp add: calculateSystolicBP_def Let_def)


lemma hr_adjust_bounds:
  fixes x :: real
  shows "100 \<le> x \<Longrightarrow> x \<le> 160 \<Longrightarrow> 0 \<le> hr_adjust x \<and> hr_adjust x \<le> 18"
    and "80 \<le> x \<Longrightarrow> x \<le> 140 \<Longrightarrow> 0 \<le> hr_adjust x \<and> hr_adjust x \<le> 12"
    and "70 \<le> x \<Longrightarrow> x \<le> 120 \<Longrightarrow> 0 \<le> hr_adjust x \<and> hr_adjust x \<le> 6"
    and "65 \<le> x \<Longrightarrow> x \<le> 110 \<Longrightarrow> - 1 \<le> hr_adjust x \<and> hr_adjust x \<le> 3"
    and "60 \<le> x \<Longrightarrow> x \<le> 100 \<Longrightarrow> - 2 \<le> hr_adjust x \<and> hr_adjust x \<le> 0"
  by (auto simp: hr_adjust_def field_simps)

lemma calculateSystolicBP_pipeline:
  assumes "calculateHeartRate s signal timestamps = Some h"
  shows "75 \<le> calculateSystolicBP s pf (real_of_int h) \<and>
         calculateSystolicBP s pf (real_of_int h) \<le> 110"
proof -
  define a where "a = hr_adjust (real_of_int h)"
  define b :: real where "b = (if amplitude pf > 3 / 10 then 10
                       else if amplitude pf < 1 / 10 then - 5 else 0)"
  define c where "c = getAgeAdjustment s"
  have b: "- 5 \<le> b \<and> b \<le> 10" by (simp add: b_def)
  have ac: "- 20 \<le> a + c \<and> a + c \<le> 0"
    using calculateHeartRate_band [OF assms]
  proof (elim disjE conjE)
    assume age: "childAge s \<le> 1" and "100 \<le> h" "h \<le> 160"
    then have "0 \<le> a \<and> a \<le> 18" unfolding a_def by (intro hr_adjust_bounds) simp_all
    with age show ?thesis by (simp add: c_def getAgeAdjustment_def)
  next
    assume age: "1 < childAge s" "childAge s \<le> 3" and "80 \<le> h" "h \<le> 140"
    then have "0 \<le> a \<and> a \<le> 12" unfolding a_def by (intro hr_adjust_bounds) simp_all
    with age show ?thesis by (simp add: c_def getAgeAdjustment_def)
  next
    assume age: "3 < childAge s" "childAge s \<le> 5" and "70 \<le> h" "h \<le> 120"
    then have "0 \<le> a \<and> a \<le> 6" unfolding a_def by (intro hr_adjust_bounds) simp_all
    with age show ?thesis by (simp add: c_def getAgeAdjustment_def)
  next
    assume age: "5 < childAge s" "childAge s \<le> 7" and "65 \<le> h" "h \<le> 110"
    then have "- 1 \<le> a \<and> a \<le> 3" unfolding a_def by (intro hr_adjust_bounds) simp_all
    with age show ?thesis by (simp add: c_def getAgeAdjustment_def)
  next
    assume age: "7 < childAge s" and "60 \<le> h" "h \<le> 100"
    then have "- 2 \<le> a \<and> a \<le> 0" unfolding a_def by (intro hr_adjust_bounds) simp_all
    with age show ?thesis by (simp add: c_def getAgeAdjustment_def)
  qed
  have "calculateSystolicBP s pf (real_of_int h) = max 70 (min 140 (100 + a + b + c))"
    unfolding calculateSystolicBP_unfold a_def b_def c_def hr_adjust_def by simp
  with b ac show ?thesis by simp
qed


lemma calculateBloodPressure_Some:
  assumes "calculateBloodPressure s signal hro rnd = Some p"
  shows "\<exists>h. hro = Some h \<and> h \<noteq> 0 \<and>
     systolic p = js_round (calculateSystolicBP s (extractPulseWaveFeatures signal) (real_of_int h)
                            + 2 * (temperature s - 37)) \<and>
     diastolic p = js_round (calculateDiastolicBP (extractPulseWaveFeatures signal)
                               (calculateSystolicBP s (extractPulseWaveFeatures signal) (real_of_int h)) rnd
                             + 2 * (temperature s - 37))"
  using assms
  by (auto simp: calculateBloodPressure_def applyTemperatureCompensation_def Let_def algebra_simps
           split: option.splits if_splits)

text \<open>Inside \<^verbatim>\<open>calculateVitalSigns\<close> the returned systolic value stays in the band.\<close>

lemma vital_signs_systolic_in_band:
  assumes "35 \<le> temperature s" and "temperature s \<le> 42"
    and "vs_bloodPressure (fst (calculateVitalSigns s rnd)) = Some p"
  shows "70 \<le> systolic p \<and> systolic p \<le> 140"
proof -
  let ?f = "applySignalProcessing s (map ppg_value (signalBuffer s))"
  let ?t = "map timestamp (signalBuffer s)"
  from assms(3) have "calculateBloodPressure s ?f (calculateHeartRate s ?f ?t) rnd = Some p"
    by (simp add: calculateVitalSigns_def Let_def split: if_splits)
  from calculateBloodPressure_Some [OF this] obtain h where
    h: "calculateHeartRate s ?f ?t = Some h"
    and sy: "systolic p = js_round (calculateSystolicBP s (extractPulseWaveFeatures ?f)
                                       (real_of_int h) + 2 * (temperature s - 37))"
    by blast
  let ?sys = "calculateSystolicBP s (extractPulseWaveFeatures ?f) (real_of_int h)"
  from calculateSystolicBP_pipeline [OF h, of "extractPulseWaveFeatures ?f"]
  have "75 \<le> ?sys" "?sys \<le> 110" by simp_all
  with assms(1,2) have "real_of_int 70 \<le> ?sys + 2 * (temperature s - 37)"
    "?sys + 2 * (temperature s - 37) \<le> real_of_int 140" by simp_all
  from js_round_bounds [OF this] sy show ?thesis by simp
qed


section \<open>Calls on the recorded signal\<close>

lemma addToBuffer_only_buffer:
  "addToBuffer s x = s\<lparr>signalBuffer := signalBuffer (addToBuffer s x)\<rparr>"
  by (simp add: addToBuffer_def Let_def)

lemma foldl_addToBuffer_only_buffer:
  "foldl addToBuffer s xs = s\<lparr>signalBuffer := signalBuffer (foldl addToBuffer s xs)\<rparr>"
proof (induction xs rule: rev_induct)
  case Nil
  show ?case by simp
next
  case (snoc x xs)
  have "foldl addToBuffer s (xs @ [x]) = addToBuffer (foldl addToBuffer s xs) x" by simp
  also have "\<dots> = (foldl addToBuffer s xs)\<lparr>signalBuffer :=
                      signalBuffer (addToBuffer (foldl addToBuffer s xs) x)\<rparr>"
    by (rule addToBuffer_only_buffer)
  also have "\<dots> = s\<lparr>signalBuffer := signalBuffer (addToBuffer (foldl addToBuffer s xs) x)\<rparr>"
    by (subst snoc) simp
  finally show ?case by simp
qed

lemma fed_eq: "n \<le> 300 \<Longrightarrow> fed n = new_processor\<lparr>signalBuffer := samples n\<rparr>"
proof -
  assume n: "n \<le> 300"
  have "signalBuffer (fed n) = drop (length (samples n) - maxBufferSize new_processor) (samples n)"
    unfolding fed_def by (rule foldl_addToBuffer_window) (simp add: new_processor_def)
  with n have "signalBuffer (fed n) = samples n"
    by (simp add: length_samples new_processor_def)
  with foldl_addToBuffer_only_buffer [of new_processor "samples n"] show ?thesis
    by (simp add: fed_def)
qed

text \<open>
  One call of \<^verbatim>\<open>calculateVitalSigns\<close> on a processor of a five-year-old that holds the first
  \<open>n\<close> samples of the recording, given the estimate \<open>h\<close> for these samples.
\<close>

lemma vital_signs_on_recording:
  assumes s: "s = new_processor\<lparr>signalBuffer := samples n, heartRateHistory := hs, bpHistory := bs\<rparr>"
    and n: "90 \<le> n"
    and est: "\<And>t. childAge t = 5 \<Longrightarrow>
              calculateHeartRate t (applySignalProcessing t (map ppg_value (samples n)))
                (map timestamp (samples n)) = Some h"
    and h: "h \<noteq> 0" "length hs < 10"
  shows "vs_heartRate (fst (calculateVitalSigns s rnd)) = Some h"
    and "\<exists>bs'. snd (calculateVitalSigns s rnd) =
           new_processor\<lparr>signalBuffer := samples n, heartRateHistory := hs @ [h], bpHistory := bs'\<rparr>"
proof -
  have m: "minValidSamples s \<le> length (signalBuffer s)"
    unfolding s using n by (simp add: new_processor_def length_samples)
  have "childAge s = 5" unfolding s by (simp add: new_processor_def)
  from est [OF this] have e: "current_estimate s = Some h"
    unfolding current_estimate_def s by simp
  show "vs_heartRate (fst (calculateVitalSigns s rnd)) = Some h"
    using calculateVitalSigns_heartRate [OF m, of rnd] e by simp
  have hist: "heartRateHistory (updateHeartRateHistory s h) = hs @ [h]"
    unfolding s using h(2) by (simp add: updateHeartRateHistory_def new_processor_def Let_def)
  have "snd (calculateVitalSigns s rnd) =
          s\<lparr>heartRateHistory := hs @ [h], bpHistory := bpHistory (snd (calculateVitalSigns s rnd))\<rparr>"
    using calculateVitalSigns_state [OF m, of rnd] e h(1) hist by simp
  then show "\<exists>bs'. snd (calculateVitalSigns s rnd) =
           new_processor\<lparr>signalBuffer := samples n, heartRateHistory := hs @ [h], bpHistory := bs'\<rparr>"
    unfolding s by auto
qed


section \<open>Blood pressure stays in the plausible band\<close>



text \<open>
  The same band on what \<^verbatim>\<open>processFrame\<close> hands to its caller, and the range
  \<^verbatim>\<open>setTemperature\<close> confines the configured temperature to.
\<close>

lemma processFrame_systolic_in_band:
  assumes "35 \<le> temperature s" and "temperature s \<le> 42"
    and "fst (processFrame s env) = Some res" and "res_bloodPressure res = Some p"
  shows "70 \<le> systolic p \<and> systolic p \<le> 140"
proof -
  let ?s2 = "s\<lparr>lastProcessTime := now env,
               fingerDetector := snd (detectFinger (fingerDetector s) (frame_analysis env))\<rparr>"
  from assms(3,4) have "\<exists>x. vs_bloodPressure
          (fst (calculateVitalSigns (addToBuffer ?s2 x) (random env))) = Some p"
    by (auto simp: processFrame_def Let_def split_beta split: if_splits option.splits)
  then obtain x where
    v: "vs_bloodPressure (fst (calculateVitalSigns (addToBuffer ?s2 x) (random env))) = Some p"
    by blast
  have "temperature (addToBuffer ?s2 x) = temperature s"
    by (simp add: addToBuffer_def Let_def)
  with vital_signs_systolic_in_band [OF _ _ v] assms(1,2) show ?thesis by simp
qed

lemma setTemperature_range:
  "35 \<le> temperature (setTemperature s temp) \<and> temperature (setTemperature s temp) \<le> 42"
  by (simp add: setTemperature_def)

section \<open>Smoothing of the returned heart rate\<close>

lemma adv_returns_median:
  "hr \<noteq> 0 \<Longrightarrow>
   fst (adv_calculateHeartRate s (Some hr))
     = adv_getSmoothedHeartRate (snd (adv_calculateHeartRate s (Some hr)))"
  by (simp add: adv_calculateHeartRate_def Let_def)

text \<open>
  Claim C5, on \<^verbatim>\<open>RealPPGProcessor\<close>. A fresh processor is given the first 90 samples of the
  recording by \<^verbatim>\<open>addToBuffer\<close>; \<^verbatim>\<open>calculateVitalSigns\<close> then returns the heart rate 100.
  After one more \<^verbatim>\<open>addToBuffer\<close>, with sample 90, \<^verbatim>\<open>calculateVitalSigns\<close> returns 99, the
  estimate of that call alone, while \<^verbatim>\<open>heartRateHistory\<close> holds \<open>[100, 99]\<close>. Both smoothing
  conventions of the sibling processors give 100 on this history: the median of
  \<^verbatim>\<open>AdvancedPPGProcessor.getSmoothedHeartRate\<close> and the rounded trailing mean of
  \<^verbatim>\<open>EnhancedPPGProcessor.getSmoothedHeartRate\<close>. The returned heart rate is therefore not the
  smoothed value of the history.
\<close>

theorem raw_estimate_returned_unsmoothed:
  "vs_heartRate (fst (calculateVitalSigns (fed 90) (1 / 2))) = Some 100 \<and>
   vs_heartRate (fst (calculateVitalSigns
       (addToBuffer (snd (calculateVitalSigns (fed 90) (1 / 2))) (sample_at 90)) (1 / 2))) = Some 99 \<and>
   heartRateHistory (snd (calculateVitalSigns
       (addToBuffer (snd (calculateVitalSigns (fed 90) (1 / 2))) (sample_at 90)) (1 / 2))) = [100, 99] \<and>
   adv_getSmoothedHeartRate (new_adv_processor\<lparr>adv_heartRateHistory := [100, 99]\<rparr>) = Some 100 \<and>
   enh_getSmoothedHeartRate (new_enh_processor\<lparr>enh_heartRateHistory := [100, 99]\<rparr>) = Some 100"
proof -
  have s0: "fed 90 = new_processor\<lparr>signalBuffer := samples 90, heartRateHistory := [],
                                    bpHistory := []\<rparr>"
    using fed_eq [of 90] by (simp add: new_processor_def)
  note v1 = vital_signs_on_recording [OF s0 _ estimate_90(1), of "1 / 2"]
  have r1: "vs_heartRate (fst (calculateVitalSigns (fed 90) (1 / 2))) = Some 100"
    by (rule v1(1)) simp_all
  have "\<exists>bs'. snd (calculateVitalSigns (fed 90) (1 / 2)) =
           new_processor\<lparr>signalBuffer := samples 90, heartRateHistory := [] @ [100], bpHistory := bs'\<rparr>"
    by (rule v1(2)) simp_all
  then obtain bs1 where s1: "snd (calculateVitalSigns (fed 90) (1 / 2)) =
           new_processor\<lparr>signalBuffer := samples 90, heartRateHistory := [100], bpHistory := bs1\<rparr>"
    by auto
  have "samples 91 = samples 90 @ [sample_at 90]"
    using samples_Suc [of 90] by simp
  then have s2: "addToBuffer (snd (calculateVitalSigns (fed 90) (1 / 2))) (sample_at 90) =
           new_processor\<lparr>signalBuffer := samples 91, heartRateHistory := [100], bpHistory := bs1\<rparr>"
    unfolding s1 by (simp add: addToBuffer_def Let_def length_samples new_processor_def)
  note v2 = vital_signs_on_recording [OF s2 _ estimate_91, of "1 / 2"]
  have r2: "vs_heartRate (fst (calculateVitalSigns
       (addToBuffer (snd (calculateVitalSigns (fed 90) (1 / 2))) (sample_at 90)) (1 / 2))) = Some 99"
    by (rule v2(1)) simp_all
  have "\<exists>bs'. snd (calculateVitalSigns
       (addToBuffer (snd (calculateVitalSigns (fed 90) (1 / 2))) (sample_at 90)) (1 / 2)) =
           new_processor\<lparr>signalBuffer := samples 91, heartRateHistory := [100] @ [99], bpHistory := bs'\<rparr>"
    by (rule v2(2)) simp_all
  then have h2: "heartRateHistory (snd (calculateVitalSigns
       (addToBuffer (snd (calculateVitalSigns (fed 90) (1 / 2))) (sample_at 90)) (1 / 2))) = [100, 99]"
    by auto
  have med: "adv_getSmoothedHeartRate (new_adv_processor\<lparr>adv_heartRateHistory := [100, 99]\<rparr>)
             = Some 100"
    by (simp add: adv_getSmoothedHeartRate_def js_round_def Let_def)
  have mean: "enh_getSmoothedHeartRate (new_enh_processor\<lparr>enh_heartRateHistory := [100, 99]\<rparr>)
             = Some 100"
    by (simp add: enh_getSmoothedHeartRate_def js_round_def Let_def)
  from r1 r2 h2 med mean show ?thesis by blast
qed

end
